(* ===== verification/Prelude.thy ===== *)
theory Prelude
  imports Complex_Main
begin

text \<open>
  Shared vocabulary of the development: the JavaScript values the component
  computes with (numbers that may be infinite or NaN, object literals read and
  written by key), the collections of lemmas the component theories use, and
  the generic lemmas on association lists that carry their proofs.
\<close>

named_theorems js_simps "evaluation rules of the JavaScript value model"

section \<open>JavaScript numbers\<close>

text \<open>
  A JavaScript number is an IEEE double. The component only divides finite
  prices, so the model keeps the real value of a finite result and the three
  special results of a division: positive and negative infinity and NaN.
  Rounding is not modelled.
\<close>

datatype js_number = JNum real | JPosInf | JNegInf | JNaN

definition js_div :: "real \<Rightarrow> real \<Rightarrow> js_number" where
  "js_div a b =
     (if b \<noteq> 0 then JNum (a / b)
      else if 0 < a then JPosInf
      else if a < 0 then JNegInf
      else JNaN)"

fun js_mul :: "js_number \<Rightarrow> real \<Rightarrow> js_number" where
  "js_mul (JNum x) c = JNum (x * c)"
| "js_mul JPosInf c = (if 0 < c then JPosInf else if c < 0 then JNegInf else JNaN)"
| "js_mul JNegInf c = (if 0 < c then JNegInf else if c < 0 then JPosInf else JNaN)"
| "js_mul JNaN c = JNaN"

text \<open>
  A real result that is too large for a double. Rounding to nearest, an
  exact result at or above \<open>2 ^ 1024 - 2 ^ 970\<close> (halfway between
  \<open>Number.MAX_VALUE\<close> and the next power of two) becomes an infinity. Below
  that bound the model keeps the real value, as elsewhere.
\<close>

definition js_overflow_bound :: real where
  "js_overflow_bound = 2 ^ 1024 - 2 ^ 970"

definition js_of_real :: "real \<Rightarrow> js_number" where
  "js_of_real x =
     (if \<bar>x\<bar> < js_overflow_bound then JNum x else if 0 < x then JPosInf else JNegInf)"

text \<open>The exponentiation operator \<open>b ** n\<close> for a natural exponent.\<close>

definition js_pow :: "real \<Rightarrow> nat \<Rightarrow> js_number" where
  "js_pow b n = js_of_real (b ^ n)"

section \<open>Errors\<close>

text \<open>
  A thrown JavaScript error: a \<open>TypeError\<close> of the language (reading a
  property of \<open>null\<close> or \<open>undefined\<close>), a \<open>ReferenceError\<close> (reading or
  assigning an undeclared name in a module, which is strict code), or an error
  the charting widget throws from one of its API calls.
\<close>

datatype js_error = TypeError string | ReferenceError string | WidgetError string

section \<open>Object literals\<close>

text \<open>
  A JavaScript object literal is an association list of its properties in
  source order. Reading a property returns the value of the last entry with
  that key (a later duplicate key overrides an earlier one); writing a key
  replaces its value in place or appends it; a spread \<open>{...a, ...b}\<close> writes
  the entries of \<open>b\<close> into \<open>a\<close> one after the other.
\<close>

type_synonym ('k, 'v) js_object = "('k \<times> 'v) list"

fun js_get :: "('k, 'v) js_object \<Rightarrow> 'k \<Rightarrow> 'v option" where
  "js_get [] k = None"
| "js_get ((k', v) # obj) k =
     (case js_get obj k of Some w \<Rightarrow> Some w | None \<Rightarrow> if k' = k then Some v else None)"

fun js_set :: "('k, 'v) js_object \<Rightarrow> 'k \<Rightarrow> 'v \<Rightarrow> ('k, 'v) js_object" where
  "js_set [] k v = [(k, v)]"
| "js_set ((k', v') # obj) k v =
     (if k' = k then (k, v) # obj else (k', v') # js_set obj k v)"

definition js_spread :: "('k, 'v) js_object \<Rightarrow> ('k, 'v) js_object \<Rightarrow> ('k, 'v) js_object" where
  "js_spread obj src = fold (\<lambda>(k, v) acc. js_set acc k v) src obj"

section \<open>Generic lemmas\<close>

subsection \<open>Lists\<close>

lemma distinct_subset_singleton_length:
  "distinct xs \<Longrightarrow> set xs \<subseteq> {x} \<Longrightarrow> length xs \<le> 1"
proof (cases xs)
  case (Cons a ys)
  moreover assume "distinct xs" "set xs \<subseteq> {x}"
  ultimately have "set ys \<subseteq> {x}" and "x \<notin> set ys" by auto
  then have "set ys = {}" by (auto simp: subset_singleton_iff)
  with Cons show ?thesis by simp
qed simp

subsection \<open>Numbers\<close>

lemma js_div_nonzero [js_simps]: "b \<noteq> 0 \<Longrightarrow> js_div a b = JNum (a / b)"
  by (simp add: js_div_def)

lemma js_div_zero_zero [js_simps]: "js_div 0 0 = JNaN"
  by (simp add: js_div_def)

lemma js_div_finite_iff: "(\<exists>x. js_div a b = JNum x) \<longleftrightarrow> b \<noteq> 0"
  by (simp add: js_div_def)

text \<open>Powers of ten are finite doubles exactly up to \<open>10 ^ 308\<close>.\<close>

lemma pow10_308_below: "(10::real) ^ 308 < js_overflow_bound"
  by (simp add: js_overflow_bound_def)

lemma pow10_309_above: "js_overflow_bound \<le> (10::real) ^ 309"
  by (simp add: js_overflow_bound_def)

lemma js_pow_10:
  "js_pow 10 d = (if d \<le> 308 then JNum (10 ^ d) else JPosInf)"
proof (cases "d \<le> 308")
  case True
  then have "(10::real) ^ d \<le> 10 ^ 308" by (rule power_increasing) simp
  with pow10_308_below True show ?thesis by (simp add: js_pow_def js_of_real_def)
next
  case False
  then have "(10::real) ^ 309 \<le> 10 ^ d" by (intro power_increasing) simp_all
  with pow10_309_above False show ?thesis by (simp add: js_pow_def js_of_real_def)
qed

subsection \<open>Object literals\<close>

lemma js_get_None_iff: "js_get obj k = None \<longleftrightarrow> k \<notin> fst ` set obj"
  by (induction obj k rule: js_get.induct) (auto split: option.split)

lemma js_get_notin [simp]: "k \<notin> fst ` set obj \<Longrightarrow> js_get obj k = None"
  by (simp add: js_get_None_iff)

lemma js_get_distinct:
  "distinct (map fst obj) \<Longrightarrow> js_get obj k = map_of obj k"
proof (induction obj k rule: js_get.induct)
  case (2 k' v obj k)
  then have IH: "js_get obj k = map_of obj k" and k': "k' \<notin> fst ` set obj" by auto
  show ?case
  proof (cases "k' = k")
    case True
    with k' show ?thesis by simp
  next
    case False
    with IH show ?thesis by (simp split: option.split)
  qed
qed simp

lemma js_set_keys [simp]:
  "map fst (js_set obj k v) = (if k \<in> fst ` set obj then map fst obj else map fst obj @ [k])"
proof (induction obj)
  case (Cons p obj)
  obtain k0 v0 where p: "p = (k0, v0)" by (cases p)
  show ?case
  proof (cases "k0 = k")
    case False
    have "k \<in> fst ` set obj \<longleftrightarrow> (\<exists>w. (k, w) \<in> set obj)" by force
    with False p Cons.IH show ?thesis by auto
  qed (simp add: p)
qed simp

lemma js_set_distinct [simp]: "distinct (map fst obj) \<Longrightarrow> distinct (map fst (js_set obj k v))"
proof -
  assume d: "distinct (map fst obj)"
  have "set (map fst obj) = fst ` set obj" by simp
  with d show ?thesis by (simp del: set_map)
qed

lemma js_get_set [simp]:
  "distinct (map fst obj) \<Longrightarrow> js_get (js_set obj k v) k' = (if k' = k then Some v else js_get obj k')"
proof (induction obj)
  case (Cons p obj)
  obtain k0 v0 where p: "p = (k0, v0)" by (cases p)
  from Cons.prems p have d: "distinct (map fst obj)" and k0: "k0 \<notin> fst ` set obj" by auto
  show ?case
  proof (cases "k0 = k")
    case True
    with p k0 show ?thesis by simp
  next
    case False
    with p Cons.IH [OF d] show ?thesis by (simp split: option.split)
  qed
qed simp

lemma js_spread_Cons [simp]: "js_spread obj ((k, v) # src) = js_spread (js_set obj k v) src"
  by (simp add: js_spread_def)

lemma js_spread_Nil [simp]: "js_spread obj [] = obj"
  by (simp add: js_spread_def)

lemma js_spread_distinct [simp]:
  "distinct (map fst obj) \<Longrightarrow> distinct (map fst (js_spread obj src))"
proof (induction src arbitrary: obj)
  case (Cons p src)
  then show ?case by (cases p) (simp del: js_set_keys)
qed simp

lemma js_get_spread:
  "distinct (map fst obj) \<Longrightarrow>
   js_get (js_spread obj src) k = (case js_get src k of Some v \<Rightarrow> Some v | None \<Rightarrow> js_get obj k)"
proof (induction src arbitrary: obj)
  case (Cons p src)
  obtain k0 v0 where p: "p = (k0, v0)" by (cases p)
  with Cons.IH [of "js_set obj k0 v0"] Cons.prems show ?case
    by (cases "js_get src k") simp_all
qed simp

lemma js_set_idem:
  "js_set (js_set obj k v) k v = js_set obj k v"
  by (induction obj) auto

lemma js_set_key_set [simp]: "fst ` set (js_set obj k v) = insert k (fst ` set obj)"
  by (induction obj k v rule: js_set.induct) auto

lemma js_spread_key_set: "fst ` set (js_spread obj src) = fst ` set obj \<union> fst ` set src"
proof (induction src arbitrary: obj)
  case (Cons p src)
  then show ?case by (cases p) auto
qed simp

lemma js_spread_keys_present:
  "fst ` set src \<subseteq> fst ` set obj \<Longrightarrow> map fst (js_spread obj src) = map fst obj"
proof (induction src arbitrary: obj)
  case (Cons p src)
  obtain k v where p: "p = (k, v)" by (cases p)
  with Cons.prems have k: "k \<in> fst ` set obj" and rest: "fst ` set src \<subseteq> fst ` set obj" by auto
  from k have "map fst (js_set obj k v) = map fst obj" by simp
  moreover from k have "fst ` set (js_set obj k v) = fst ` set obj" by auto
  ultimately show ?case using Cons.IH [of "js_set obj k v"] rest p by simp
qed simp

lemma js_object_eqI:
  assumes "distinct (map fst a)" and "map fst a = map fst b" and "\<And>k. js_get a k = js_get b k"
  shows "a = b"
  using assms
proof (induction a arbitrary: b)
  case Nil
  then show ?case by simp
next
  case (Cons p a)
  obtain k v where p: "p = (k, v)" by (cases p)
  from Cons.prems(2) p obtain w b' where b: "b = (k, w) # b'" and keys: "map fst a = map fst b'"
    by (cases b) auto
  have da: "distinct (map fst a)" and ka: "k \<notin> fst ` set a" using Cons.prems(1) p by auto
  have db: "distinct (map fst b')" and kb: "k \<notin> fst ` set b'"
    using Cons.prems(1) p keys by (metis distinct.simps(2) list.simps(9) fst_conv list.set_map)+
  have ga: "js_get ((k, v) # a) x = map_of ((k, v) # a) x" for x
    by (rule js_get_distinct) (use da ka in simp)
  have gb: "js_get ((k, w) # b') x = map_of ((k, w) # b') x" for x
    by (rule js_get_distinct) (use db kb in simp)
  have look: "map_of ((k, v) # a) x = map_of ((k, w) # b') x" for x
    using Cons.prems(3) [of x] unfolding p b ga gb .
  from look [of k] have vw: "v = w" by simp
  have "map_of a x = map_of b' x" for x
  proof (cases "x = k")
    case True
    from ka kb have "map_of a k = None" "map_of b' k = None"
      by (simp_all add: map_of_eq_None_iff)
    with True show ?thesis by simp
  next
    case False
    with look [of x] show ?thesis by simp
  qed
  then have "js_get a x = js_get b' x" for x using da db by (simp add: js_get_distinct)
  with Cons.IH [OF da keys] p b vw show ?case by simp
qed

lemma js_spread_idem:
  assumes d: "distinct (map fst obj)"
  shows "js_spread (js_spread obj src) src = js_spread obj src"
proof (rule js_object_eqI)
  let ?x = "js_spread obj src"
  show dx: "distinct (map fst (js_spread ?x src))" using d by simp
  have "fst ` set src \<subseteq> fst ` set ?x" by (simp add: js_spread_key_set)
  then show "map fst (js_spread ?x src) = map fst ?x" by (rule js_spread_keys_present)
  show "js_get (js_spread ?x src) k = js_get ?x k" for k
    using d by (simp add: js_get_spread split: option.split)
qed

end
