(* ===== verification/Baseline.thy ===== *)
theory Baseline
  imports Prelude
begin

text \<open>
  The baseline-level computation of \<open>setBaselineLevel\<close> (src/Sentiment/Sentiment.js,
  lines 210--217): from the visible range \<open>[from, to]\<close> of the left price scale it
  computes the percentage at which the sentiment overlay's zero line is drawn.
  The computation is a JavaScript number: the division may produce NaN or an
  infinity, which the model keeps as values of \<^typ>\<open>js_number\<close>.
\<close>

definition baseLevelPercentage :: "real \<Rightarrow> real \<Rightarrow> js_number" where
  "baseLevelPercentage from to =
     (if 0 < from \<and> 0 < to then JNum 0
      else if from < 0 \<and> to < 0 then JNum 100
      else js_mul (js_div \<bar>from\<bar> \<bar>from - to\<bar>) 100)"

text \<open>
  The position of price zero in the range \<open>[from, to]\<close>, as a percentage of
  the range measured from its lower end and clamped to \<open>[0, 100]\<close>: the
  abstract meaning of the baseline level.
\<close>

definition zero_position :: "real \<Rightarrow> real \<Rightarrow> real" where
  "zero_position from to = max 0 (min 100 (100 * (0 - from) / (to - from)))"

subsection \<open>The straddling branch\<close>

text \<open>
  In the third branch the bounds are not both positive and not both negative,
  so they lie on opposite sides of zero (or one of them is zero) and the
  distance between them is the sum of their magnitudes.
\<close>

lemma straddle_abs_diff:
  assumes "\<not> (0 < (from::real) \<and> 0 < to)" and "\<not> (from < 0 \<and> (to::real) < 0)"
  shows "\<bar>from - to\<bar> = \<bar>from\<bar> + \<bar>to\<bar>"
  using assms by linarith

lemma straddle_degenerate:
  assumes "\<not> (0 < (from::real) \<and> 0 < to)" and "\<not> (from < 0 \<and> (to::real) < 0)"
  shows "\<bar>from - to\<bar> = 0 \<longleftrightarrow> from = 0 \<and> to = 0"
  using assms by linarith

lemma straddle_value:
  assumes "\<not> (0 < from \<and> 0 < to)" and "\<not> (from < 0 \<and> to < 0)"
    and "from \<noteq> 0 \<or> to \<noteq> 0"
  shows "baseLevelPercentage from to = JNum (\<bar>from\<bar> / (\<bar>from\<bar> + \<bar>to\<bar>) * 100)"
proof -
  have nz: "\<bar>from - to\<bar> \<noteq> 0" using assms straddle_degenerate by blast
  have "baseLevelPercentage from to = js_mul (js_div \<bar>from\<bar> \<bar>from - to\<bar>) 100"
    by (simp only: baseLevelPercentage_def if_not_P [OF assms(1)] if_not_P [OF assms(2)])
  also have "\<dots> = JNum (\<bar>from\<bar> / (\<bar>from\<bar> + \<bar>to\<bar>) * 100)"
    using nz straddle_abs_diff [OF assms(1,2)] by (simp add: js_div_nonzero)
  finally show ?thesis .
qed

lemma ratio_bounds:
  fixes a b :: real
  assumes "0 \<le> a" and "0 \<le> b" and "a + b \<noteq> 0"
  shows "0 \<le> a / (a + b) * 100 \<and> a / (a + b) * 100 \<le> 100"
proof -
  have pos: "0 < a + b" using assms by linarith
  define x where "x = a / (a + b)"
  have "x \<le> 1" using assms pos by (simp add: x_def divide_le_eq_1)
  moreover have "0 \<le> x" using assms by (simp add: x_def)
  ultimately show ?thesis unfolding x_def [symmetric] by linarith
qed

subsection \<open>Properties of the baseline level\<close>

text \<open>
  C2: whenever the visible range is not the single point zero, the baseline
  level is a finite number between 0 and 100.
\<close>

theorem baseLevelPercentage_bounds:
  assumes "\<not> (from = 0 \<and> to = 0)"
  shows "\<exists>p. baseLevelPercentage from to = JNum p \<and> 0 \<le> p \<and> p \<le> 100"
proof (cases "0 < from \<and> 0 < to")
  case True
  then show ?thesis by (simp add: baseLevelPercentage_def)
next
  case out: False
  show ?thesis
  proof (cases "from < 0 \<and> to < 0")
    case True
    then show ?thesis by (auto simp: baseLevelPercentage_def)
  next
    case False
    have "\<bar>from\<bar> + \<bar>to\<bar> \<noteq> 0" using assms by linarith
    with ratio_bounds [of "\<bar>from\<bar>" "\<bar>to\<bar>"] have
      "0 \<le> \<bar>from\<bar> / (\<bar>from\<bar> + \<bar>to\<bar>) * 100 \<and> \<bar>from\<bar> / (\<bar>from\<bar> + \<bar>to\<bar>) * 100 \<le> 100"
      by simp
    with straddle_value [OF out False] assms show ?thesis by auto
  qed
qed

theorem baseLevelPercentage_bounds_witness:
  "\<not> ((-30::real) = 0 \<and> (10::real) = 0) \<and> baseLevelPercentage (-30) 10 = JNum 75 \<and>
   (\<exists>p. baseLevelPercentage (-30) 10 = JNum p \<and> 0 \<le> p \<and> p \<le> 100)"
proof -
  have h: "\<not> ((-30::real) = 0 \<and> (10::real) = 0)" by simp
  show ?thesis using baseLevelPercentage_bounds [OF h] h
    by (simp add: baseLevelPercentage_def js_div_def)
qed


text \<open>
  C1: on a proper range (\<open>from < to\<close>) the baseline level is the position of
  price zero in the range, as a percentage from its lower end, clamped to
  \<open>[0, 100]\<close>: the case analysis of the code implements this abstract
  specification.
\<close>

theorem baseLevelPercentage_refines_zero_position:
  assumes "from < to"
  shows "baseLevelPercentage from to = JNum (zero_position from to)"
proof -
  have w: "0 < to - from" using assms by simp
  consider (pos) "0 < from \<and> 0 < to" | (neg) "from < 0 \<and> to < 0"
    | (mid) "\<not> (0 < from \<and> 0 < to)" "\<not> (from < 0 \<and> to < 0)" by blast
  then show ?thesis
  proof cases
    case pos
    then have "100 * (0 - from) / (to - from) \<le> 0"
      using w by (simp add: divide_nonpos_pos)
    with pos show ?thesis by (simp add: baseLevelPercentage_def zero_position_def)
  next
    case neg
    then have "100 \<le> 100 * (0 - from) / (to - from)"
      by (subst pos_le_divide_eq [OF w]) simp
    with neg show ?thesis by (simp add: baseLevelPercentage_def zero_position_def)
  next
    case mid
    then have lo: "from \<le> 0" and hi: "0 \<le> to" using assms by linarith+
    define r where "r = 100 * (0 - from) / (to - from)"
    have eq: "\<bar>from\<bar> / (\<bar>from\<bar> + \<bar>to\<bar>) * 100 = r"
      using lo hi by (simp add: r_def)
    have "from \<noteq> 0 \<or> to \<noteq> 0" using assms by auto
    with straddle_value [OF mid] eq have val: "baseLevelPercentage from to = JNum r"
      by simp
    have nz: "\<bar>from\<bar> + \<bar>to\<bar> \<noteq> 0" using assms by linarith
    have "0 \<le> r \<and> r \<le> 100"
      using ratio_bounds [OF abs_ge_zero abs_ge_zero nz] by (simp only: eq)
    then have "zero_position from to = r"
      unfolding zero_position_def r_def [symmetric] by simp
    with val show ?thesis by simp
  qed
qed

theorem baseLevelPercentage_refines_zero_position_witness:
  "(-30::real) < 10 \<and> baseLevelPercentage (-30) 10 = JNum (zero_position (-30) 10) \<and>
   zero_position (-30) 10 = 75"
proof -
  have h: "(-30::real) < 10" by simp
  show ?thesis using baseLevelPercentage_refines_zero_position [OF h] h
    by (simp add: zero_position_def)
qed

end
