(* ===== verification/Host.thy ===== *)
theory Host
  imports Prelude
begin

text \<open>
  The charting widget is a third-party library the component only calls; it is
  not part of the repository. This theory gives the part of its state the
  component reads and writes, as an explicit store: the studies (auxiliary
  series) on the active chart with their names and applied overrides, the
  source of fresh study ids, and the visible range of the left price scale of
  the first pane. Its operations are the widget API calls the component makes:
  \<open>createStudy\<close>, \<open>removeEntity\<close>, \<open>getAllStudies\<close>, \<open>getStudyById\<close> and
  \<open>applyOverrides\<close> on a study.
\<close>

type_synonym study_id = nat

record study =
  study_id :: study_id
  study_name :: string
  study_symbol :: string
  study_overrides :: "(string, js_number) js_object"

record host =
  studies :: "study list"
  next_study :: study_id
  left_scale :: "(real \<times> real) option"

definition host_init :: host where
  "host_init = \<lparr>studies = [], next_study = 0, left_scale = None\<rparr>"

text \<open>\<open>createStudy(name, ..., {symbol})\<close>: a study with a fresh id is appended.\<close>

definition host_createStudy :: "string \<Rightarrow> string \<Rightarrow> host \<Rightarrow> study_id \<times> host" where
  "host_createStudy name symbol h =
     (next_study h,
      h\<lparr>studies := studies h @ [\<lparr>study_id = next_study h, study_name = name,
                                 study_symbol = symbol, study_overrides = []\<rparr>],
        next_study := Suc (next_study h)\<rparr>)"

definition host_removeEntity :: "study_id \<Rightarrow> host \<Rightarrow> host" where
  "host_removeEntity i h = h\<lparr>studies := filter (\<lambda>s. study_id s \<noteq> i) (studies h)\<rparr>"

text \<open>\<open>getAllStudies()\<close>: the \<open>{name, id}\<close> pairs of the chart's studies.\<close>

definition host_getAllStudies :: "host \<Rightarrow> (string \<times> study_id) list" where
  "host_getAllStudies h = map (\<lambda>s. (study_name s, study_id s)) (studies h)"

definition host_getStudyById :: "study_id \<Rightarrow> host \<Rightarrow> study option" where
  "host_getStudyById i h = find (\<lambda>s. study_id s = i) (studies h)"

definition host_applyStudyOverrides ::
  "study_id \<Rightarrow> (string, js_number) js_object \<Rightarrow> host \<Rightarrow> host" where
  "host_applyStudyOverrides i ovs h =
     h\<lparr>studies := map (\<lambda>s. if study_id s = i
                            then s\<lparr>study_overrides := js_spread (study_overrides s) ovs\<rparr>
                            else s) (studies h)\<rparr>"

text \<open>
  The shape of the study list (ids and names in order) is what the component's
  invariants speak about; applying overrides leaves it unchanged.
\<close>

definition study_frame :: "host \<Rightarrow> (study_id \<times> string) list" where
  "study_frame h = map (\<lambda>s. (study_id s, study_name s)) (studies h)"

definition study_ids :: "host \<Rightarrow> study_id list" where
  "study_ids h = map study_id (studies h)"

definition named_ids :: "string \<Rightarrow> host \<Rightarrow> study_id list" where
  "named_ids n h = map study_id (filter (\<lambda>s. study_name s = n) (studies h))"

definition host_wf :: "host \<Rightarrow> bool" where
  "host_wf h \<longleftrightarrow> distinct (study_ids h) \<and> (\<forall>i \<in> set (study_ids h). i < next_study h)"

lemma study_frame_applyStudyOverrides [simp]:
  "study_frame (host_applyStudyOverrides i ovs h) = study_frame h"
  by (simp add: study_frame_def host_applyStudyOverrides_def comp_def)

lemma study_ids_applyStudyOverrides [simp]:
  "study_ids (host_applyStudyOverrides i ovs h) = study_ids h"
  by (simp add: study_ids_def host_applyStudyOverrides_def comp_def)

lemma named_ids_applyStudyOverrides [simp]:
  "named_ids n (host_applyStudyOverrides i ovs h) = named_ids n h"
proof -
  have "map study_id (filter (\<lambda>s. study_name s = n)
          (map (\<lambda>s. if study_id s = i then s\<lparr>study_overrides := v s\<rparr> else s) xs)) =
        map study_id (filter (\<lambda>s. study_name s = n) xs)" for xs :: "study list" and v
    by (induction xs) auto
  then show ?thesis by (simp add: named_ids_def host_applyStudyOverrides_def)
qed

lemma next_study_applyStudyOverrides [simp]:
  "next_study (host_applyStudyOverrides i ovs h) = next_study h"
  by (simp add: host_applyStudyOverrides_def)

lemma left_scale_applyStudyOverrides [simp]:
  "left_scale (host_applyStudyOverrides i ovs h) = left_scale h"
  by (simp add: host_applyStudyOverrides_def)

lemma host_wf_applyStudyOverrides [simp]:
  "host_wf (host_applyStudyOverrides i ovs h) = host_wf h"
  by (simp add: host_wf_def)

lemma getStudyById_Some_iff:
  "(\<exists>st. host_getStudyById i h = Some st) \<longleftrightarrow> i \<in> set (study_ids h)"
proof -
  have "(\<exists>st. host_getStudyById i h = Some st) \<longleftrightarrow> host_getStudyById i h \<noteq> None"
    by auto
  also have "\<dots> \<longleftrightarrow> (\<exists>s \<in> set (studies h). study_id s = i)"
    by (auto simp: host_getStudyById_def find_None_iff)
  also have "\<dots> \<longleftrightarrow> i \<in> set (study_ids h)"
    by (auto simp: study_ids_def)
  finally show ?thesis .
qed

lemma named_ids_createStudy:
  "host_createStudy name symbol h = (i, h') \<Longrightarrow>
   named_ids n h' = named_ids n h @ (if n = name then [i] else [])"
  by (auto simp: host_createStudy_def named_ids_def)

lemma study_ids_createStudy:
  "host_createStudy name symbol h = (i, h') \<Longrightarrow> study_ids h' = study_ids h @ [i] \<and> i = next_study h"
  by (auto simp: host_createStudy_def study_ids_def)

lemma next_study_createStudy:
  "host_createStudy name symbol h = (i, h') \<Longrightarrow> next_study h' = Suc (next_study h)"
  by (auto simp: host_createStudy_def)

lemma host_wf_createStudy:
  assumes wf: "host_wf h" and c: "host_createStudy name symbol h = (i, h')"
  shows "host_wf h'"
proof -
  from study_ids_createStudy [OF c] have ids: "study_ids h' = study_ids h @ [i]"
    and i: "i = next_study h" by simp_all
  from wf i have "i \<notin> set (study_ids h)" by (auto simp: host_wf_def)
  with wf ids i next_study_createStudy [OF c] show ?thesis
    by (auto simp: host_wf_def less_Suc_eq)
qed

lemma named_ids_removeEntity:
  "named_ids n (host_removeEntity i h) = filter (\<lambda>j. j \<noteq> i) (named_ids n h)"
  by (simp add: named_ids_def host_removeEntity_def filter_map comp_def conj_commute)

lemma study_ids_removeEntity:
  "study_ids (host_removeEntity i h) = filter (\<lambda>j. j \<noteq> i) (study_ids h)"
  by (simp add: study_ids_def host_removeEntity_def filter_map comp_def)

lemma host_wf_removeEntity:
  "host_wf h \<Longrightarrow> host_wf (host_removeEntity i h)"
  by (auto simp: host_wf_def study_ids_removeEntity)
    (simp add: host_removeEntity_def)

lemma named_ids_study_frame:
  "named_ids n h = map fst (filter (\<lambda>p. snd p = n) (study_frame h))"
  by (simp add: named_ids_def study_frame_def filter_map comp_def)

lemma study_ids_study_frame:
  "study_ids h = map fst (study_frame h)"
  by (simp add: study_ids_def study_frame_def comp_def)

lemma host_wf_study_frame:
  "study_frame h' = study_frame h \<Longrightarrow> next_study h' = next_study h \<Longrightarrow> host_wf h' = host_wf h"
  by (simp add: host_wf_def study_ids_study_frame)

lemma named_ids_subset: "set (named_ids n h) \<subseteq> set (study_ids h)"
  by (auto simp: named_ids_def study_ids_def)

lemma getAllStudies_other_name:
  assumes "host_wf h" and "(n, i) \<in> set (host_getAllStudies h)" and "m \<noteq> n"
  shows "i \<notin> set (named_ids m h)"
proof
  assume "i \<in> set (named_ids m h)"
  then obtain s where s: "s \<in> set (studies h)" "study_id s = i" "study_name s = m"
    by (auto simp: named_ids_def)
  from assms(2) obtain s' where s': "s' \<in> set (studies h)" "study_id s' = i" "study_name s' = n"
    by (auto simp: host_getAllStudies_def)
  from assms(1) have "inj_on study_id (set (studies h))"
    by (simp add: host_wf_def study_ids_def distinct_map)
  with s s' have "s = s'" by (auto dest: inj_onD)
  with s s' assms(3) show False by simp
qed

end
