(* ===== verification/Config.thy ===== *)
theory Config
  imports Prelude
begin

text \<open>
  The static configuration of the component (src/tv-code.js lines 7--69, the
  same text in src/Sentiment/Sentiment.js): the datafeed's configuration data,
  the asset-class tables, the locale table and its lookup, the common style
  overrides, \<open>changeStyles\<close>, which pushes them and sixteen CSS custom
  properties into the widget, and the options the widget is constructed with.
\<close>

section \<open>Definitions\<close>

record config =
  supported_resolutions :: "string list"
  supports_marks :: bool

definition getConfigurationData :: "'a \<Rightarrow> config" where
  "getConfigurationData isAI = \<lparr>supported_resolutions = [''1D''], supports_marks = True\<rparr>"

text \<open>
  The ids \<open>assetClasses.Coins.id\<close>, \<dots> come from a module-level object the
  sources do not define; they are distinct values, and an asset may carry an id
  of some other class.
\<close>

datatype asset_class = Coins | Equity | Commodity | Index | CurrencyPairs | OtherClass nat

record asset =
  AssetClassId :: asset_class
  AssetTicker :: string
  AssetName :: string
  Decimals :: nat
  Category :: string

definition tvAssetTypes :: "(asset_class, string) js_object" where
  "tvAssetTypes =
     [(Coins, ''crypto''), (Equity, ''stock''), (Commodity, ''commodity''),
      (Index, ''index''), (CurrencyPairs, ''forex'')]"

definition assetsSessions :: "(asset_class, string) js_object" where
  "assetsSessions =
     [(Coins, ''24x7''), (Equity, ''0000-0000''), (Commodity, ''0000-0000''),
      (Index, ''24x7''), (CurrencyPairs, ''0000-0000'')]"

definition tvChartLocales :: "(string, string) js_object" where
  "tvChartLocales =
     [(''ar-AE'', ''ar''), (''zh-tw'', ''zh_TW''), (''zh-CN'', ''zh''), (''en-GB'', ''en''),
      (''fr-FR'', ''fr''), (''de-DE'', ''de''), (''id-ID'', ''id_ID''), (''it-IT'', ''it''),
      (''ja-JP'', ''ja''), (''ms-MY'', ''ms_MY''), (''pl-PL'', ''pl''), (''pt-PT'', ''pt''),
      (''ru-RU'', ''ru''), (''es-ES'', ''es''), (''sv-SE'', ''sv''), (''th-TH'', ''th''),
      (''tr-TR'', ''tr''), (''vi-vn'', ''vi'')]"

text \<open>
  Reading \<open>tvChartLocales[locale]\<close> on a plain object also finds the members
  every object inherits from \<open>Object.prototype\<close>; they are functions (or, for
  \<open>__proto__\<close>, an object), hence truthy, so \<open>|| 'en'\<close> does not replace them.
\<close>

definition object_prototype_members :: "string list" where
  "object_prototype_members =
     [''constructor'', ''hasOwnProperty'', ''isPrototypeOf'', ''propertyIsEnumerable'',
      ''toLocaleString'', ''toString'', ''valueOf'', ''__proto__'', ''__defineGetter__'',
      ''__defineSetter__'', ''__lookupGetter__'', ''__lookupSetter__'']"

datatype locale_value = LocaleStr string | LocaleInherited string

definition tvLocale :: "string \<Rightarrow> locale_value" where
  "tvLocale locale =
     (case js_get tvChartLocales locale of
        Some l \<Rightarrow> if l = [] then LocaleStr ''en'' else LocaleStr l
      | None \<Rightarrow> if locale \<in> set object_prototype_members then LocaleInherited locale
                else LocaleStr ''en'')"

record settings =
  primaryBackgroundColor1 :: string
  primaryBackgroundColor2 :: string
  fontColor :: string
  buyColor :: string
  sellColor :: string
  accentColor :: string

datatype ovalue = OStr string | OBool bool | ONum int

definition getCommonOverrides :: "settings \<Rightarrow> (string, ovalue) js_object" where
  "getCommonOverrides st =
     [(''paneProperties.background'', OStr (primaryBackgroundColor2 st)),
      (''scalesProperties.textColor'', OStr (fontColor st)),
      (''scalesProperties.showSymbolLabels'', OBool False),
      (''mainSeriesProperties.barStyle.downColor'', OStr (buyColor st)),
      (''mainSeriesProperties.barStyle.upColor'', OStr (buyColor st)),
      (''mainSeriesProperties.candleStyle.borderUpColor'', OStr (buyColor st)),
      (''mainSeriesProperties.candleStyle.borderDownColor'', OStr (sellColor st)),
      (''mainSeriesProperties.lineStyle.color'', OStr (fontColor st)),
      (''mainSeriesProperties.showPriceLine'', OBool False),
      (''paneProperties.separatorColor'', OStr (primaryBackgroundColor2 st))]"

text \<open>The sixteen \<open>setCSSCustomProperty\<close> calls of \<open>changeStyles\<close>, in order.\<close>

definition cssCustomProperties :: "settings \<Rightarrow> (string \<times> string) list" where
  "cssCustomProperties st =
     [(''--tv-color-platform-background'', primaryBackgroundColor2 st),
      (''--tv-color-pane-background'', primaryBackgroundColor2 st),
      (''--tv-color-toolbar-button-text'', fontColor st),
      (''--tv-color-toolbar-button-background-hover'', primaryBackgroundColor1 st),
      (''--tv-color-toolbar-button-text-active'', accentColor st),
      (''--tv-color-popup-background'', primaryBackgroundColor1 st),
      (''--tv-color-popup-element-text'', fontColor st),
      (''--tv-color-popup-element-secondary-text'', fontColor st),
      (''--tv-color-popup-element-background-active'', accentColor st),
      (''--tv-color-toolbar-button-background-expanded'', primaryBackgroundColor1 st),
      (''--tv-color-toolbar-button-text-hover'', accentColor st),
      (''--tv-color-toolbar-button-text-active'', accentColor st),
      (''--tv-color-toolbar-divider-background'', primaryBackgroundColor1 st),
      (''--tv-color-popup-element-text-hover'', accentColor st),
      (''--tv-color-popup-element-background-hover'', primaryBackgroundColor1 st),
      (''--tv-color-popup-element-divider-background'', fontColor st)]"

text \<open>
  The widget's style state: the overrides applied to chart 0 and the CSS custom
  properties set on the widget. \<open>applyOverrides\<close> merges the given keys into the
  chart's overrides; \<open>setCSSCustomProperty\<close> sets one property.
\<close>

record widget_style =
  chart_overrides :: "(string, ovalue) js_object"
  css_props :: "(string, string) js_object"

definition changeStyles :: "bool \<Rightarrow> settings \<Rightarrow> widget_style \<Rightarrow> widget_style" where
  "changeStyles tvWidget st w =
     (if \<not> tvWidget then w
      else \<lparr>chart_overrides = js_spread (chart_overrides w) (getCommonOverrides st),
            css_props = js_spread (css_props w) (cssCustomProperties st)\<rparr>)"

record widget_options =
  wo_symbol :: string
  wo_interval :: string
  wo_library_path :: string
  wo_locale :: locale_value
  wo_enabled_features :: "string list"
  wo_disabled_features :: "string list"
  wo_charts_storage_api_version :: string
  wo_client_id :: string
  wo_user_id :: string
  wo_fullscreen :: bool
  wo_autosize :: bool
  wo_studies_overrides :: "(string, ovalue) js_object"
  wo_overrides :: "(string, ovalue) js_object"

text \<open>
  \<open>getWidgetOptions\<close>: \<open>asset\<close> is \<open>null\<close> by default (\<open>defaultProps\<close>), and
  \<open>asset.AssetTicker\<close> then throws. \<open>BLOB_CDN_URL\<close> is a build-time global.
\<close>

definition getWidgetOptions ::
  "asset option \<Rightarrow> settings \<Rightarrow> string \<Rightarrow> string \<Rightarrow> js_error + widget_options" where
  "getWidgetOptions asset st locale blobCdnUrl =
     (case asset of
        None \<Rightarrow> Inl (TypeError ''asset.AssetTicker'')
      | Some a \<Rightarrow> Inr
          \<lparr>wo_symbol = AssetTicker a, wo_interval = ''1D'',
           wo_library_path = blobCdnUrl @ ''/tvchartinglibrary/'',
           wo_locale = tvLocale locale,
           wo_enabled_features = [''fix_left_edge'', ''iframe_loading_compatibility_mode'',
             ''low_density_bars'', ''determine_first_data_request_size_using_visible_range''],
           wo_disabled_features = [''use_localstorage_for_settings'', ''header_symbol_search'',
             ''header_compare'', ''study_templates'', ''request_only_visible_range_on_reset''],
           wo_charts_storage_api_version = ''1.1'', wo_client_id = ''tradingview.com'',
           wo_user_id = ''public_user_id'', wo_fullscreen = False, wo_autosize = True,
           wo_studies_overrides = [(''Overlay.style'', ONum 10)],
           wo_overrides = js_spread
             [(''paneProperties.crossHairProperties.color'', OStr (accentColor st)),
              (''mainSeriesProperties.style'', ONum 1)]
             (getCommonOverrides st)\<rparr>)"

section \<open>Lemmas\<close>

lemma tvChartLocales_distinct: "distinct (map fst tvChartLocales)"
  by (simp add: tvChartLocales_def)

lemma tvChartLocales_nonempty: "map_of tvChartLocales loc = Some l \<Longrightarrow> l \<noteq> []"
  by (auto simp: tvChartLocales_def split: if_splits)

lemma getCommonOverrides_distinct: "distinct (map fst (getCommonOverrides st))"
  by (simp add: getCommonOverrides_def)

section \<open>Properties\<close>



text \<open>
  C21: the widget's locale is the table's entry for the application locale;
  a locale the table does not list becomes \<open>en\<close>, unless it names a member
  every object inherits, which \<open>tvChartLocales[locale]\<close> returns instead.
\<close>

theorem tvLocale_lookup:
  "tvLocale loc =
     (case map_of tvChartLocales loc of
        Some l \<Rightarrow> LocaleStr l
      | None \<Rightarrow> if loc \<in> set object_prototype_members then LocaleInherited loc else LocaleStr ''en'')"
  using tvChartLocales_nonempty [of loc]
  by (auto simp: tvLocale_def js_get_distinct [OF tvChartLocales_distinct] split: option.split)

text \<open>
  C22: the bar style colours up bars and down bars alike (both \<open>buyColor\<close>),
  while the candle borders use \<open>buyColor\<close> and \<open>sellColor\<close>.
\<close>

theorem bar_colors_identical:
  "js_get (getCommonOverrides st) ''mainSeriesProperties.barStyle.downColor'' =
     js_get (getCommonOverrides st) ''mainSeriesProperties.barStyle.upColor'' \<and>
   js_get (getCommonOverrides st) ''mainSeriesProperties.candleStyle.borderDownColor'' =
     Some (OStr (sellColor st)) \<and>
   js_get (getCommonOverrides st) ''mainSeriesProperties.candleStyle.borderUpColor'' =
     Some (OStr (buyColor st))"
  by (simp add: js_get_distinct [OF getCommonOverrides_distinct]) (simp add: getCommonOverrides_def)

text \<open>
  C23: the widget is built from the asset's ticker; its overrides are the
  crosshair colour and the candle style, overridden key by key by the common
  overrides; the compare dialog is disabled. With the default \<open>asset = null\<close>
  the options cannot be built: the component throws a TypeError on mount.
\<close>

theorem getWidgetOptions_spec:
  "(getWidgetOptions None st loc url = Inl (TypeError ''asset.AssetTicker'')) \<and>
   (\<exists>opts. getWidgetOptions (Some a) st loc url = Inr opts \<and>
      wo_symbol opts = AssetTicker a \<and> wo_locale opts = tvLocale loc \<and>
      ''header_compare'' \<in> set (wo_disabled_features opts) \<and>
      (\<forall>k. js_get (wo_overrides opts) k =
         (case js_get (getCommonOverrides st) k of
            Some v \<Rightarrow> Some v
          | None \<Rightarrow> js_get [(''paneProperties.crossHairProperties.color'', OStr (accentColor st)),
                             (''mainSeriesProperties.style'', ONum 1)] k)))"
  by (simp add: getWidgetOptions_def js_get_spread del: js_get.simps)

end
