(* ===== verification/Sentiment.thy ===== *)
theory Sentiment
  imports Baseline Host Config
begin

text \<open>
  The sentiment overlay of src/Sentiment/Sentiment.js: the module-level handle
  \<open>sentimentId\<close> of the overlay study, \<open>setBaselineLevel\<close>, the six widget event
  handlers that call it, the \<open>study\<close> handler that recreates the overlay and
  removes user-added copies, and the mount and chart-ready steps of the React
  component that create the widget, register the handlers and create the
  overlay. The component, its handlers and the widget form one system whose
  steps are the inductive relation \<open>sys_step\<close>.
\<close>

section \<open>Values\<close>

definition sentimentName :: string where
  "sentimentName = ''Gradient Sentiment''"

text \<open>
  The value held by \<open>let sentimentId\<close>: \<open>null\<close> at load, \<open>undefined\<close> after a
  \<open>remove\<close> event, a study id after \<open>await createStudy(...)\<close>, or the Promise
  returned by an un-awaited \<open>createStudy(...)\<close>. Study ids are non-empty strings,
  so an id and a Promise are truthy and \<open>null\<close> and \<open>undefined\<close> are not; a
  Promise is never \<open>===\<close> to a study id.
\<close>

datatype handle = HNull | HUndefined | HId study_id | HPromise study_id

fun truthy :: "handle \<Rightarrow> bool" where
  "truthy HNull = False"
| "truthy HUndefined = False"
| "truthy (HId i) = True"
| "truthy (HPromise i) = True"

fun handle_eq :: "handle \<Rightarrow> study_id \<Rightarrow> bool" where
  "handle_eq (HId j) i = (j = i)"
| "handle_eq _ i = False"

definition baseLevelKey :: string where
  "baseLevelKey = ''baselineStyle.baseLevelPercentage''"

section \<open>setBaselineLevel\<close>

text \<open>
  \<open>chart\<close> is the React state the handler's closure captured (\<open>True\<close> when it
  holds the active chart). The widget's \<open>getStudyById\<close> throws for an id that
  names no study (and for a Promise); \<open>priceScale?.getVisiblePriceRange()\<close>
  yields \<open>undefined\<close> or \<open>null\<close> when the pane has no left scale or no
  visible range, and destructuring it throws a TypeError.
\<close>

definition setBaselineLevel :: "bool \<Rightarrow> handle \<Rightarrow> host \<Rightarrow> js_error + host" where
  "setBaselineLevel chart sid h =
     (if \<not> chart \<or> \<not> truthy sid then Inr h
      else case sid of
        HId i \<Rightarrow>
          (case host_getStudyById i h of
             None \<Rightarrow> Inl (WidgetError ''getStudyById'')
           | Some _ \<Rightarrow>
               (case left_scale h of
                  None \<Rightarrow> Inl (TypeError ''getVisiblePriceRange'')
                | Some (from, to) \<Rightarrow>
                    Inr (host_applyStudyOverrides i
                           [(baseLevelKey, baseLevelPercentage from to)] h)))
      | _ \<Rightarrow> Inl (WidgetError ''getStudyById''))"

section \<open>The component and its handlers\<close>

datatype tv_event =
    MouseDown
  | MouseUp
  | StudyPropertiesChanged study_id
  | UndoRedoStateChanged
  | ResetScales
  | StudyEvent study_id string

text \<open>
  \<open>subs\<close> lists the registrations of the group of six handlers (lines 260--292):
  the effect re-runs, and registers all six again without unsubscribing, each
  time \<open>chart\<close> or \<open>tvWidget\<close> changes while \<open>tvWidget\<close> is set; each entry is
  the \<open>chart\<close> value its closures captured. \<open>rejections\<close> logs the errors of
  the asynchronous handlers: nobody awaits them, so an error ends that call as
  an unhandled rejection and changes nothing else. \<open>props\<close> is the
  \<open>settings\<close> prop (the theme). \<open>style\<close> holds the overrides and CSS properties
  the component applies to the widget through its API after construction.
  The overrides passed to the constructor are the widget's defaults.
  \<open>asset_prop\<close> and \<open>locale_prop\<close> are the other two props, and
  \<open>blobCdnUrl\<close> is the build-time global \<open>BLOB_CDN_URL\<close>: the inputs of
  \<open>getWidgetOptions\<close>. \<open>mount_error\<close> is the error the mount effect threw,
  if it threw one. React then unmounts the component, and nothing else happens.
\<close>

record sys =
  widget :: bool
  chart :: bool
  subs :: "bool list"
  study_sub :: bool
  sentimentId :: handle
  host :: host
  rejections :: "js_error list"
  cleanup_tvWidget :: bool
  props :: settings
  style :: widget_style
  asset_prop :: "asset option"
  locale_prop :: string
  blobCdnUrl :: string
  mount_error :: "js_error option"

definition init_sys :: "settings \<Rightarrow> asset option \<Rightarrow> string \<Rightarrow> string \<Rightarrow> sys" where
  "init_sys st asset locale url =
     \<lparr>widget = False, chart = False, subs = [], study_sub = False,
      sentimentId = HNull, host = host_init, rejections = [],
      cleanup_tvWidget = False, props = st,
      style = \<lparr>chart_overrides = [], css_props = []\<rparr>,
      asset_prop = asset, locale_prop = locale, blobCdnUrl = url, mount_error = None\<rparr>"

definition runBaseline :: "bool \<Rightarrow> sys \<Rightarrow> sys" where
  "runBaseline c s =
     (case setBaselineLevel c (sentimentId s) (host s) of
        Inl e \<Rightarrow> s\<lparr>rejections := rejections s @ [e]\<rparr>
      | Inr h \<Rightarrow> s\<lparr>host := h\<rparr>)"

fun widgetHandler :: "bool \<Rightarrow> tv_event \<Rightarrow> sys \<Rightarrow> sys" where
  "widgetHandler c MouseDown s = runBaseline c s"
| "widgetHandler c MouseUp s = runBaseline c s"
| "widgetHandler c (StudyPropertiesChanged i) s =
     (if handle_eq (sentimentId s) i then runBaseline c s else s)"
| "widgetHandler c UndoRedoStateChanged s = runBaseline c s"
| "widgetHandler c ResetScales s = runBaseline c s"
| "widgetHandler c (StudyEvent i ty) s =
     (if handle_eq (sentimentId s) i \<and> ty = ''remove''
      then s\<lparr>sentimentId := HUndefined\<rparr> else runBaseline c s)"

definition handlers :: "bool list \<Rightarrow> tv_event \<Rightarrow> sys \<Rightarrow> sys" where
  "handlers cs e s = fold (\<lambda>c. widgetHandler c e) cs s"

definition dispatch :: "tv_event \<Rightarrow> sys \<Rightarrow> sys" where
  "dispatch e s = handlers (subs s) e s"

text \<open>\<open>removeEntity(id)\<close>, and the \<open>study_event\<close> the widget fires for it.\<close>

definition removeEntity :: "study_id \<Rightarrow> sys \<Rightarrow> sys" where
  "removeEntity i s = dispatch (StudyEvent i ''remove'') (s\<lparr>host := host_removeEntity i (host s)\<rparr>)"

definition createSentimentStudy :: "sys \<Rightarrow> study_id \<times> sys" where
  "createSentimentStudy s =
     (let (i, h) = host_createStudy ''Overlay'' sentimentName (host s) in (i, s\<lparr>host := h\<rparr>))"

definition removeSentimentCopies :: "(string \<times> study_id) list \<Rightarrow> sys \<Rightarrow> sys" where
  "removeSentimentCopies all s =
     fold (\<lambda>(name, i) t. if name = sentimentName then removeEntity i t else t) all s"

definition studyHandler :: "string \<Rightarrow> sys \<Rightarrow> sys" where
  "studyHandler value s =
     (let s1 = (if \<not> truthy (sentimentId s) \<and> value = sentimentName
                then (case createSentimentStudy s of (i, s') \<Rightarrow> s'\<lparr>sentimentId := HPromise i\<rparr>)
                else s)
      in removeSentimentCopies (host_getAllStudies (host s1)) s1)"

text \<open>
  The mount effect (\<open>useEffect(..., [])\<close>) runs once, after the first render.
  \<open>new Widget(getWidgetOptions())\<close> builds the options first. When that
  throws, the effect ends there: no widget, no \<open>setTVWidget\<close>. Otherwise the
  widget exists, and the re-render caused by \<open>setTVWidget\<close> runs the
  \<open>[chart, tvWidget]\<close> effect, which registers the handlers. The effect's
  cleanup closure reads \<open>tvWidget\<close> as the first render saw it.
  \<open>cleanup_tvWidget\<close> records whether that captured value is the widget.
\<close>

definition mountWidget :: "sys \<Rightarrow> sys" where
  "mountWidget s =
     (case getWidgetOptions (asset_prop s) (props s) (locale_prop s) (blobCdnUrl s) of
        Inl e \<Rightarrow> s\<lparr>mount_error := Some e\<rparr>
      | Inr options \<Rightarrow> s\<lparr>widget := True, subs := subs s @ [chart s], cleanup_tvWidget := widget s\<rparr>)"

text \<open>The cleanup on unmount: \<open>tvWidget.remove()\<close> on the captured value.\<close>

definition unmount :: "sys \<Rightarrow> js_error + sys" where
  "unmount s =
     (if cleanup_tvWidget s then Inr (s\<lparr>widget := False\<rparr>)
      else Inl (TypeError ''tvWidget.remove''))"

text \<open>
  \<open>setChart(activeChart)\<close> in the chart-ready callback re-renders the
  component. The \<open>[chart, tvWidget]\<close> effect registers the six handlers again,
  now capturing the chart. Then the \<open>[chart]\<close> effect calls \<open>changeStyles()\<close>
  and \<open>setBaselineLevel()\<close>, in that order.
\<close>

definition chartReady :: "sys \<Rightarrow> sys" where
  "chartReady s =
     runBaseline True
       (s\<lparr>chart := True, subs := subs s @ [True],
          style := changeStyles (widget s) (props s) (style s)\<rparr>)"

definition overlayCreated :: "sys \<Rightarrow> sys" where
  "overlayCreated s =
     (case createSentimentStudy s of (i, s') \<Rightarrow> s'\<lparr>sentimentId := HId i, study_sub := True\<rparr>)"

definition userAddStudy :: "string \<Rightarrow> sys \<Rightarrow> sys" where
  "userAddStudy n s =
     (let s' = s\<lparr>host := snd (host_createStudy n n (host s))\<rparr>
      in if study_sub s then studyHandler n s' else s')"

fun env_event :: "tv_event \<Rightarrow> bool" where
  "env_event (StudyEvent i ty) = (ty \<noteq> ''remove'')"
| "env_event e = True"

section \<open>The system\<close>

inductive sys_step :: "sys \<Rightarrow> sys \<Rightarrow> bool" where
  mount: "\<not> widget s \<Longrightarrow> mount_error s = None \<Longrightarrow> sys_step s (mountWidget s)"
| ready: "widget s \<Longrightarrow> \<not> chart s \<Longrightarrow> sys_step s (chartReady s)"
| created: "chart s \<Longrightarrow> \<not> study_sub s \<Longrightarrow> sys_step s (overlayCreated s)"
| event: "widget s \<Longrightarrow> env_event e \<Longrightarrow> sys_step s (dispatch e s)"
| remove: "widget s \<Longrightarrow> i \<in> set (study_ids (host s)) \<Longrightarrow> sys_step s (removeEntity i s)"
| add: "widget s \<Longrightarrow> n \<noteq> ''Overlay'' \<Longrightarrow> sys_step s (userAddStudy n s)"
| scale: "widget s \<Longrightarrow> sys_step s (s\<lparr>host := (host s)\<lparr>left_scale := r\<rparr>\<rparr>)"

inductive reachable :: "sys \<Rightarrow> bool" where
  start: "reachable (init_sys st asset locale url)"
| step: "reachable s \<Longrightarrow> sys_step s t \<Longrightarrow> reachable t"

inductive_cases sys_stepE: "sys_step s t"

end
