(* ===== verification/Sentiment_Invariant.thy ===== *)
theory Sentiment_Invariant
  imports Sentiment
begin

text \<open>
  The invariant of the sentiment-overlay system: the widget's study ids are
  distinct and below the next fresh id, the handlers are registered once the
  widget exists, and the handle \<open>sentimentId\<close> agrees with the overlay studies
  on the chart. Each step of \<open>sys_step\<close> preserves it; the theorems about the
  overlay follow from it.
\<close>

section \<open>Definitions\<close>

text \<open>The part of the system state that the handlers never change.\<close>

definition frame_of ::
  "sys \<Rightarrow> bool \<times> bool \<times> bool list \<times> bool \<times> bool \<times> settings \<times> widget_style \<times>
          (asset option \<times> string \<times> string \<times> js_error option) \<times>
          (study_id \<times> string) list \<times> study_id" where
  "frame_of s = (widget s, chart s, subs s, study_sub s, cleanup_tvWidget s, props s, style s,
                 (asset_prop s, locale_prop s, blobCdnUrl s, mount_error s),
                 study_frame (host s), next_study (host s))"

text \<open>
  The component's React state and the theme it applied: what only the mount
  and chart-ready steps change.
\<close>

definition ui_of ::
  "sys \<Rightarrow> bool \<times> bool \<times> bool list \<times> settings \<times> widget_style \<times>
          (asset option \<times> string \<times> string \<times> js_error option)" where
  "ui_of s = (widget s, chart s, subs s, props s, style s,
              (asset_prop s, locale_prop s, blobCdnUrl s, mount_error s))"

text \<open>Whether a handler run for this event clears the handle.\<close>

fun clears :: "tv_event \<Rightarrow> handle \<Rightarrow> bool" where
  "clears (StudyEvent i ty) sid = (handle_eq sid i \<and> ty = ''remove'')"
| "clears e sid = False"

fun overlay_tracked :: "handle \<Rightarrow> study_id list \<Rightarrow> bool" where
  "overlay_tracked HNull ovs = (ovs = [])"
| "overlay_tracked HUndefined ovs = (ovs = [])"
| "overlay_tracked (HId i) ovs = (ovs = [i])"
| "overlay_tracked (HPromise i) ovs = (set ovs \<subseteq> {i})"

abbreviation overlays :: "sys \<Rightarrow> study_id list" where
  "overlays s \<equiv> named_ids ''Overlay'' (host s)"

definition sentiment_inv :: "sys \<Rightarrow> bool" where
  "sentiment_inv s \<longleftrightarrow>
     host_wf (host s) \<and> (widget s \<longrightarrow> subs s \<noteq> []) \<and>
     (chart s \<longrightarrow> widget s) \<and> (study_sub s \<longrightarrow> chart s) \<and> \<not> cleanup_tvWidget s \<and>
     (study_sub s \<or> sentimentId s = HNull) \<and>
     overlay_tracked (sentimentId s) (overlays s)"

section \<open>Frame lemmas of the handlers\<close>

named_theorems frame_simps "how the component's operations change the frame and the handle"

lemma frame_of_host_wf:
  "frame_of t = frame_of s \<Longrightarrow> host_wf (host t) = host_wf (host s)"
  by (rule host_wf_study_frame) (simp_all add: frame_of_def)

lemma frame_of_named_ids:
  "frame_of t = frame_of s \<Longrightarrow> named_ids n (host t) = named_ids n (host s)"
  by (simp add: frame_of_def named_ids_study_frame)

lemma setBaselineLevel_frame:
  "setBaselineLevel c sid h = Inr h' \<Longrightarrow> study_frame h' = study_frame h \<and> next_study h' = next_study h"
  by (auto simp: setBaselineLevel_def split: if_splits handle.splits option.splits prod.splits)

lemma runBaseline_frame [frame_simps]: "frame_of (runBaseline c s) = frame_of s"
proof (cases "setBaselineLevel c (sentimentId s) (host s)")
  case (Inl e)
  then show ?thesis by (simp add: runBaseline_def frame_of_def)
next
  case (Inr h)
  then show ?thesis
    using setBaselineLevel_frame [OF Inr] by (simp add: runBaseline_def frame_of_def)
qed

lemma runBaseline_sentimentId [frame_simps]: "sentimentId (runBaseline c s) = sentimentId s"
  by (simp add: runBaseline_def split: sum.split)

lemma widgetHandler_frame [frame_simps]: "frame_of (widgetHandler c e s) = frame_of s"
  by (cases e) (simp_all add: runBaseline_frame, simp add: frame_of_def)

lemma widgetHandler_sentimentId [frame_simps]:
  "sentimentId (widgetHandler c e s) = (if clears e (sentimentId s) then HUndefined else sentimentId s)"
  by (cases e) (simp_all add: runBaseline_sentimentId)

lemma handlers_frame [frame_simps]: "frame_of (handlers cs e s) = frame_of s"
  by (induction cs arbitrary: s) (simp_all add: handlers_def widgetHandler_frame)

lemma clears_HUndefined: "\<not> clears e HUndefined"
  by (cases e) simp_all

lemma handlers_sentimentId [frame_simps]:
  "sentimentId (handlers cs e s) =
     (if cs \<noteq> [] \<and> clears e (sentimentId s) then HUndefined else sentimentId s)"
  by (induction cs arbitrary: s) (simp_all add: handlers_def widgetHandler_sentimentId clears_HUndefined)

lemma dispatch_frame [frame_simps]: "frame_of (dispatch e s) = frame_of s"
  by (simp add: dispatch_def handlers_frame)

lemma dispatch_sentimentId [frame_simps]:
  "sentimentId (dispatch e s) = (if subs s \<noteq> [] \<and> clears e (sentimentId s) then HUndefined else sentimentId s)"
  by (simp add: dispatch_def handlers_sentimentId)

lemma removeEntity_frame [frame_simps]:
  "widget (removeEntity i s) = widget s" "chart (removeEntity i s) = chart s"
  "subs (removeEntity i s) = subs s" "study_sub (removeEntity i s) = study_sub s"
  "cleanup_tvWidget (removeEntity i s) = cleanup_tvWidget s"
  "props (removeEntity i s) = props s" "style (removeEntity i s) = style s"
  "named_ids n (host (removeEntity i s)) = filter (\<lambda>j. j \<noteq> i) (named_ids n (host s))"
  "host_wf (host s) \<Longrightarrow> host_wf (host (removeEntity i s))"
  "sentimentId (removeEntity i s) =
     (if subs s \<noteq> [] \<and> handle_eq (sentimentId s) i then HUndefined else sentimentId s)"
proof -
  let ?t = "s\<lparr>host := host_removeEntity i (host s)\<rparr>"
  have f: "frame_of (removeEntity i s) = frame_of ?t"
    by (simp add: removeEntity_def frame_simps)
  then show "widget (removeEntity i s) = widget s" "chart (removeEntity i s) = chart s"
    "subs (removeEntity i s) = subs s" "study_sub (removeEntity i s) = study_sub s"
    "cleanup_tvWidget (removeEntity i s) = cleanup_tvWidget s"
    "props (removeEntity i s) = props s" "style (removeEntity i s) = style s"
    by (simp_all add: frame_of_def)
  show "named_ids n (host (removeEntity i s)) = filter (\<lambda>j. j \<noteq> i) (named_ids n (host s))"
    using frame_of_named_ids [OF f] by (simp add: named_ids_removeEntity)
  show "host_wf (host s) \<Longrightarrow> host_wf (host (removeEntity i s))"
    using frame_of_host_wf [OF f] by (simp add: host_wf_removeEntity)
  show "sentimentId (removeEntity i s) =
     (if subs s \<noteq> [] \<and> handle_eq (sentimentId s) i then HUndefined else sentimentId s)"
    by (simp add: removeEntity_def frame_simps)
qed

lemma createSentimentStudy_frame:
  assumes "createSentimentStudy s = (i, s')"
  shows "widget s' = widget s" "chart s' = chart s" "subs s' = subs s"
    "study_sub s' = study_sub s" "sentimentId s' = sentimentId s"
    "cleanup_tvWidget s' = cleanup_tvWidget s"
    "overlays s' = overlays s @ [i]"
    "host_wf (host s) \<Longrightarrow> host_wf (host s')"
proof -
  obtain h where c: "host_createStudy ''Overlay'' sentimentName (host s) = (i, h)" and s': "s' = s\<lparr>host := h\<rparr>"
    using assms by (auto simp: createSentimentStudy_def split: prod.splits)
  show "widget s' = widget s" "chart s' = chart s" "subs s' = subs s"
    "study_sub s' = study_sub s" "sentimentId s' = sentimentId s"
    "cleanup_tvWidget s' = cleanup_tvWidget s"
    by (simp_all add: s')
  show "overlays s' = overlays s @ [i]" using named_ids_createStudy [OF c] by (simp add: s')
  show "host_wf (host s) \<Longrightarrow> host_wf (host s')" using host_wf_createStudy [OF _ c] by (simp add: s')
qed

section \<open>Preservation of the invariant\<close>

lemma sentiment_inv_init: "sentiment_inv (init_sys st asset locale url)"
  by (simp add: sentiment_inv_def init_sys_def host_init_def host_wf_def study_ids_def named_ids_def)

lemma sentiment_inv_frame:
  assumes f: "frame_of t = frame_of s" and sid: "sentimentId t = sentimentId s"
    and inv: "sentiment_inv s"
  shows "sentiment_inv t"
proof -
  have "host_wf (host t) = host_wf (host s)" by (rule frame_of_host_wf [OF f])
  moreover have "overlays t = overlays s" by (rule frame_of_named_ids [OF f])
  moreover have "widget t = widget s" "chart t = chart s" "subs t = subs s" "study_sub t = study_sub s"
    "cleanup_tvWidget t = cleanup_tvWidget s"
    using f by (simp_all add: frame_of_def)
  ultimately show ?thesis using inv sid by (simp add: sentiment_inv_def)
qed

lemma sentiment_inv_dispatch:
  "sentiment_inv s \<Longrightarrow> \<not> clears e (sentimentId s) \<Longrightarrow> sentiment_inv (dispatch e s)"
  by (rule sentiment_inv_frame) (simp_all add: frame_simps)

lemma sentiment_inv_removeEntity:
  assumes inv: "sentiment_inv s" and w: "widget s"
  shows "sentiment_inv (removeEntity i s)"
proof -
  from inv w have ne: "subs s \<noteq> []" by (simp add: sentiment_inv_def)
  have tr: "overlay_tracked (sentimentId (removeEntity i s)) (overlays (removeEntity i s))"
  proof (cases "sentimentId s")
    case (HId j)
    with inv have "overlays s = [j]" by (simp add: sentiment_inv_def)
    with HId ne show ?thesis by (simp add: frame_simps)
  next
    case (HPromise j)
    with inv have "set (overlays s) \<subseteq> {j}" by (simp add: sentiment_inv_def)
    with HPromise show ?thesis by (auto simp: frame_simps)
  qed (use inv in \<open>simp_all add: sentiment_inv_def frame_simps\<close>)
  have "study_sub s \<or> sentimentId s = HNull" using inv by (simp add: sentiment_inv_def)
  then have "study_sub (removeEntity i s) \<or> sentimentId (removeEntity i s) = HNull"
    by (auto simp: frame_simps)
  with inv tr show ?thesis by (simp add: sentiment_inv_def frame_simps)
qed

lemma removeEntity_other:
  assumes inv: "sentiment_inv t" and w: "widget t" and i: "i \<notin> set (overlays t)"
  shows "sentiment_inv (removeEntity i t)" "overlays (removeEntity i t) = overlays t"
    "sentimentId (removeEntity i t) = sentimentId t"
    "widget (removeEntity i t) = widget t" "study_sub (removeEntity i t) = study_sub t"
proof -
  show "sentiment_inv (removeEntity i t)" using inv w by (rule sentiment_inv_removeEntity)
  show "overlays (removeEntity i t) = overlays t"
    using i by (simp add: frame_simps filter_id_conv) blast
  have "\<not> handle_eq (sentimentId t) i"
  proof (cases "sentimentId t")
    case (HId j)
    with inv have "overlays t = [j]" by (simp add: sentiment_inv_def)
    with HId i show ?thesis by simp
  qed simp_all
  then show "sentimentId (removeEntity i t) = sentimentId t" by (simp add: frame_simps)
  show "widget (removeEntity i t) = widget t" "study_sub (removeEntity i t) = study_sub t"
    by (simp_all add: frame_simps)
qed

lemma removeSentimentCopies_inv:
  assumes "sentiment_inv t" and "widget t"
    and "\<forall>(n, i) \<in> set L. n = sentimentName \<longrightarrow> i \<notin> set (overlays t)"
  shows "sentiment_inv (removeSentimentCopies L t) \<and> overlays (removeSentimentCopies L t) = overlays t
    \<and> sentimentId (removeSentimentCopies L t) = sentimentId t
    \<and> widget (removeSentimentCopies L t) = widget t \<and> study_sub (removeSentimentCopies L t) = study_sub t"
  using assms
proof (induction L arbitrary: t)
  case Nil
  then show ?case by (simp add: removeSentimentCopies_def)
next
  case (Cons p L)
  obtain n0 i0 where p: "p = (n0, i0)" by (cases p)
  show ?case
  proof (cases "n0 = sentimentName")
    case True
    with Cons.prems p have i0: "i0 \<notin> set (overlays t)" by auto
    note r = removeEntity_other [OF Cons.prems(1,2) i0]
    have "\<forall>(n, i) \<in> set L. n = sentimentName \<longrightarrow> i \<notin> set (overlays (removeEntity i0 t))"
      using Cons.prems(3) r(2) by auto
    with Cons.IH [of "removeEntity i0 t"] Cons.prems(2) r True p show ?thesis
      by (simp add: removeSentimentCopies_def)
  next
    case False
    with Cons.IH [of t] Cons.prems p show ?thesis
      by (simp add: removeSentimentCopies_def)
  qed
qed

lemma sentimentName_not_overlay: "sentimentName \<noteq> ''Overlay''"
  by (simp add: sentimentName_def)

lemma sentiment_inv_studyHandler:
  assumes inv: "sentiment_inv s" and w: "widget s" and sub: "study_sub s"
  shows "sentiment_inv (studyHandler v s) \<and> widget (studyHandler v s) \<and> study_sub (studyHandler v s)"
proof -
  define s1 where "s1 = (if \<not> truthy (sentimentId s) \<and> v = sentimentName
                then (case createSentimentStudy s of (i, s') \<Rightarrow> s'\<lparr>sentimentId := HPromise i\<rparr>)
                else s)"
  have s1: "sentiment_inv s1 \<and> widget s1 \<and> study_sub s1"
  proof (cases "\<not> truthy (sentimentId s) \<and> v = sentimentName")
    case True
    obtain i s' where c: "createSentimentStudy s = (i, s')" by fastforce
    from True inv have "overlays s = []"
      by (cases "sentimentId s") (simp_all add: sentiment_inv_def)
    with createSentimentStudy_frame [OF c] inv w sub True show ?thesis
      by (simp add: s1_def c sentiment_inv_def)
  next
    case False
    have "s1 = s" unfolding s1_def by (rule if_not_P [OF False])
    with inv w sub show ?thesis by simp
  qed
  have "\<forall>(n, i) \<in> set (host_getAllStudies (host s1)). n = sentimentName \<longrightarrow> i \<notin> set (overlays s1)"
    using s1 getAllStudies_other_name [OF _ _ sentimentName_not_overlay [symmetric]]
    by (auto simp: sentiment_inv_def)
  with removeSentimentCopies_inv [of s1] s1 show ?thesis
    by (simp add: studyHandler_def s1_def [symmetric] Let_def)
qed

lemma sentiment_inv_userAddStudy:
  assumes inv: "sentiment_inv s" and w: "widget s" and n: "n \<noteq> ''Overlay''"
  shows "sentiment_inv (userAddStudy n s)"
proof -
  obtain j h where c: "host_createStudy n n (host s) = (j, h)" by fastforce
  let ?s' = "s\<lparr>host := h\<rparr>"
  have "overlays ?s' = overlays s" using named_ids_createStudy [OF c] n by simp
  moreover have "host_wf h" using host_wf_createStudy [OF _ c] inv by (simp add: sentiment_inv_def)
  ultimately have inv': "sentiment_inv ?s'" using inv by (simp add: sentiment_inv_def)
  show ?thesis
  proof (cases "study_sub s")
    case True
    with sentiment_inv_studyHandler [OF inv' _ _, of n] w show ?thesis
      by (simp add: userAddStudy_def c)
  next
    case False
    with inv' show ?thesis by (simp add: userAddStudy_def c)
  qed
qed

lemma env_event_not_clears: "env_event e \<Longrightarrow> \<not> clears e sid"
  by (cases e) simp_all

lemma sys_step_sentiment_inv:
  assumes "sys_step s t" and "sentiment_inv s"
  shows "sentiment_inv t"
  using assms
proof (induction rule: sys_step.induct)
  case (mount s)
  then show ?case by (auto simp: sentiment_inv_def mountWidget_def split: sum.split)
next
  case (ready s)
  let ?s' = "s\<lparr>chart := True, subs := subs s @ [True],
                 style := changeStyles (widget s) (props s) (style s)\<rparr>"
  have "sentiment_inv ?s'" using ready.prems ready.hyps by (auto simp: sentiment_inv_def)
  then show ?case unfolding chartReady_def
    by (rule sentiment_inv_frame [rotated 2]) (simp_all add: frame_simps)
next
  case (created s)
  obtain i s' where c: "createSentimentStudy s = (i, s')" by fastforce
  from created have "sentimentId s = HNull" by (simp add: sentiment_inv_def)
  with created.prems have "overlays s = []" by (simp add: sentiment_inv_def)
  with createSentimentStudy_frame [OF c] created show ?case
    by (simp add: overlayCreated_def c sentiment_inv_def)
next
  case (event s e)
  then show ?case by (simp add: sentiment_inv_dispatch env_event_not_clears)
next
  case (remove s i)
  then show ?case by (simp add: sentiment_inv_removeEntity)
next
  case (add s n)
  then show ?case by (simp add: sentiment_inv_userAddStudy)
next
  case (scale s r)
  then show ?case
    by (simp add: sentiment_inv_def host_wf_def study_ids_def named_ids_def)
qed

lemma reachable_sentiment_inv: "reachable s \<Longrightarrow> sentiment_inv s"
  by (induction rule: reachable.induct) (auto intro: sentiment_inv_init sys_step_sentiment_inv)

section \<open>The steps that change the component's state\<close>

lemma frame_of_ui: "frame_of t = frame_of s \<Longrightarrow> ui_of t = ui_of s"
  by (simp add: frame_of_def ui_of_def)

lemma removeEntity_ui: "ui_of (removeEntity i s) = ui_of s"
proof -
  have "frame_of (removeEntity i s) = frame_of (s\<lparr>host := host_removeEntity i (host s)\<rparr>)"
    by (simp add: removeEntity_def frame_simps)
  from frame_of_ui [OF this] show ?thesis by (simp add: ui_of_def)
qed

lemma removeSentimentCopies_ui: "ui_of (removeSentimentCopies all s) = ui_of s"
proof (induction all arbitrary: s)
  case (Cons p all)
  then show ?case by (cases p) (simp add: removeSentimentCopies_def removeEntity_ui)
qed (simp add: removeSentimentCopies_def)

lemma userAddStudy_ui: "ui_of (userAddStudy n s) = ui_of s"
  using removeSentimentCopies_ui
  by (simp add: userAddStudy_def studyHandler_def createSentimentStudy_def Let_def ui_of_def
      split: prod.split)

lemma sys_step_ui:
  assumes "sys_step s t"
  shows "ui_of t = ui_of s \<or> (\<not> widget s \<and> t = mountWidget s) \<or>
         (widget s \<and> \<not> chart s \<and> t = chartReady s)"
  using assms
proof cases
  case created
  then show ?thesis by (simp add: overlayCreated_def createSentimentStudy_def ui_of_def split: prod.split)
next
  case (event e)
  then show ?thesis using frame_of_ui [OF dispatch_frame] by simp
next
  case (remove i)
  then show ?thesis by (simp add: removeEntity_ui)
next
  case (add n)
  then show ?thesis using userAddStudy_ui by simp
next
  case (scale r)
  then show ?thesis by (simp add: ui_of_def)
qed simp_all

lemma chartReady_ui:
  "ui_of (chartReady s) =
     (widget s, True, subs s @ [True], props s, changeStyles (widget s) (props s) (style s),
      (asset_prop s, locale_prop s, blobCdnUrl s, mount_error s))"
proof -
  have "frame_of (chartReady s) = frame_of (s\<lparr>chart := True, subs := subs s @ [True],
          style := changeStyles (widget s) (props s) (style s)\<rparr>)"
    by (simp add: chartReady_def frame_simps)
  then show ?thesis by (simp add: frame_of_def ui_of_def)
qed

end
