(* ===== verification/Sentiment_Properties.thy ===== *)
theory Sentiment_Properties
  imports Sentiment_Invariant
begin

text \<open>
  What the sentiment-overlay code guarantees in every reachable state of the
  system, and where it fails: the handle becomes an un-awaited Promise when the
  \<open>study\<close> handler recreates the overlay, after which the overlay can be lost
  for good. The runs used as witnesses are defined first.
\<close>

section \<open>Runs\<close>

text \<open>A theme for the runs: the \<open>settings\<close> prop.\<close>

definition demo_theme :: settings where
  "demo_theme = \<lparr>primaryBackgroundColor1 = ''#101010'', primaryBackgroundColor2 = ''#202020'',
     fontColor = ''#e0e0e0'', buyColor = ''#00a000'', sellColor = ''#a00000'',
     accentColor = ''#ffa000''\<rparr>"

text \<open>The asset prop of the runs.\<close>

definition demo_asset :: asset where
  "demo_asset = \<lparr>AssetClassId = Coins, AssetTicker = ''BTC'', AssetName = ''Bitcoin'',
     Decimals = 2, Category = ''crypto''\<rparr>"

text \<open>The widget mounts, the chart becomes ready and the overlay is created.\<close>

definition run_mounted :: sys where
  "run_mounted = mountWidget (init_sys demo_theme (Some demo_asset) ''en-GB'' ''https://cdn.example'')"

text \<open>The component mounted without an asset, its default.\<close>

definition run_null :: sys where
  "run_null = mountWidget (init_sys demo_theme None ''en-GB'' ''https://cdn.example'')"

definition run_ready :: sys where
  "run_ready = overlayCreated (chartReady run_mounted)"

definition run_scaled :: sys where
  "run_scaled = run_ready\<lparr>host := (host run_ready)\<lparr>left_scale := Some (-30, 10)\<rparr>\<rparr>"

text \<open>
  The user removes the overlay, adds the \<open>Gradient Sentiment\<close> study (which
  makes the \<open>study\<close> handler recreate the overlay), then removes the new overlay.
\<close>

definition run_lost :: sys where
  "run_lost = removeEntity 2 (userAddStudy sentimentName (removeEntity 0 run_ready))"

section \<open>Handler lemmas\<close>

lemma runBaseline_falsy: "\<not> truthy (sentimentId s) \<Longrightarrow> runBaseline c s = s"
  by (simp add: runBaseline_def setBaselineLevel_def)

lemma handle_eq_falsy: "\<not> truthy sid \<Longrightarrow> \<not> handle_eq sid i"
  by (cases sid) simp_all

lemma dispatch_falsy: "\<not> truthy (sentimentId s) \<Longrightarrow> dispatch e s = s"
proof -
  assume f: "\<not> truthy (sentimentId s)"
  have "widgetHandler c e t = t" if "\<not> truthy (sentimentId t)" for c t
    using that by (cases e) (simp_all add: runBaseline_falsy handle_eq_falsy)
  then have "fold (\<lambda>c. widgetHandler c e) cs t = t" if "\<not> truthy (sentimentId t)" for cs t
    using that by (induction cs) simp_all
  with f show ?thesis by (simp add: dispatch_def handlers_def)
qed

lemma runBaseline_promise:
  "sentimentId s = HPromise i \<Longrightarrow>
   runBaseline True s = s\<lparr>rejections := rejections s @ [WidgetError ''getStudyById'']\<rparr>"
  by (simp add: runBaseline_def setBaselineLevel_def)

lemma userAddStudy_truthy:
  assumes inv: "sentiment_inv s" and w: "widget s" and n: "n \<noteq> ''Overlay''"
    and t: "truthy (sentimentId s)"
  shows "sentimentId (userAddStudy n s) = sentimentId s \<and> overlays (userAddStudy n s) = overlays s"
proof -
  obtain j h where c: "host_createStudy n n (host s) = (j, h)" by fastforce
  let ?s' = "s\<lparr>host := h\<rparr>"
  have ov: "overlays ?s' = overlays s" using named_ids_createStudy [OF c] n by simp
  moreover have "host_wf h" using host_wf_createStudy [OF _ c] inv by (simp add: sentiment_inv_def)
  ultimately have inv': "sentiment_inv ?s'" using inv by (simp add: sentiment_inv_def)
  have "\<forall>(m, k) \<in> set (host_getAllStudies h). m = sentimentName \<longrightarrow> k \<notin> set (overlays ?s')"
    using \<open>host_wf h\<close> getAllStudies_other_name [OF _ _ sentimentName_not_overlay [symmetric]]
    by auto
  note loop = removeSentimentCopies_inv [OF inv' _ this]
  show ?thesis
  proof (cases "study_sub s")
    case True
    have "studyHandler n ?s' = removeSentimentCopies (host_getAllStudies h) ?s'"
      using t by (simp add: studyHandler_def)
    with True loop w ov show ?thesis by (simp add: userAddStudy_def c)
  next
    case False
    with ov show ?thesis by (simp add: userAddStudy_def c)
  qed
qed

text \<open>
  A step from a reachable state whose handle is a Promise keeps the handle and
  never adds an overlay: the chart-ready creation has already happened, the
  \<open>study\<close> handler only creates when the handle is falsy, and the user cannot
  add an \<open>Overlay\<close> study.
\<close>

lemma promise_step:
  assumes r: "reachable s" and st: "sys_step s t" and p: "sentimentId s = HPromise i"
  shows "sentimentId t = HPromise i \<and> set (overlays t) \<subseteq> set (overlays s)"
  using st
proof cases
  case mount
  then show ?thesis using p by (simp add: mountWidget_def split: sum.split)
next
  case ready
  then show ?thesis using p frame_of_named_ids [OF runBaseline_frame]
    by (simp add: chartReady_def runBaseline_sentimentId)
next
  case created
  with reachable_sentiment_inv [OF r] p show ?thesis by (simp add: sentiment_inv_def)
next
  case (event e)
  then show ?thesis using p frame_of_named_ids [OF dispatch_frame]
    by (simp add: dispatch_sentimentId env_event_not_clears)
next
  case (remove j)
  then show ?thesis using p by (auto simp: frame_simps)
next
  case (add n)
  with userAddStudy_truthy [OF reachable_sentiment_inv [OF r]] p show ?thesis by simp
next
  case (scale r)
  then show ?thesis using p by (simp add: named_ids_def)
qed

lemma promise_steps:
  assumes "sys_step\<^sup>*\<^sup>* s t" and "reachable s" and "sentimentId s = HPromise i"
  shows "reachable t \<and> sentimentId t = HPromise i \<and> set (overlays t) \<subseteq> set (overlays s)"
  using assms
proof (induction rule: rtranclp_induct)
  case base
  then show ?case by simp
next
  case (step u t)
  then have "reachable u" "sentimentId u = HPromise i" "set (overlays u) \<subseteq> set (overlays s)"
    by simp_all
  with promise_step [OF this(1) step.hyps(2) this(2)] step.hyps(2) show ?case
    by (auto intro: reachable.step)
qed

lemma run_mounted_eq:
  "run_mounted = (init_sys demo_theme (Some demo_asset) ''en-GB'' ''https://cdn.example'')
                   \<lparr>widget := True, subs := [False]\<rparr>"
  by (simp add: run_mounted_def mountWidget_def getWidgetOptions_def init_sys_def)

lemma reachable_run_ready: "reachable run_ready"
proof -
  have "reachable run_mounted"
    unfolding run_mounted_def
    by (rule reachable.step [OF reachable.start]) (rule sys_step.mount, simp_all add: init_sys_def)
  then have "reachable (chartReady run_mounted)"
    by (rule reachable.step) (rule sys_step.ready, simp_all add: run_mounted_eq init_sys_def)
  then show ?thesis unfolding run_ready_def
    by (rule reachable.step) (rule sys_step.created,
        simp_all add: chartReady_def runBaseline_def setBaselineLevel_def run_mounted_eq init_sys_def)
qed

lemma reachable_run_scaled: "reachable run_scaled"
  unfolding run_scaled_def
  by (rule reachable.step [OF reachable_run_ready], rule sys_step.scale)
    (simp add: run_ready_def overlayCreated_def createSentimentStudy_def chartReady_def
      run_mounted_eq runBaseline_def setBaselineLevel_def init_sys_def host_createStudy_def)

lemma reachable_run_lost: "reachable run_lost"
proof -
  let ?s1 = "removeEntity 0 run_ready"
  let ?s2 = "userAddStudy sentimentName ?s1"
  note defs = run_ready_def overlayCreated_def createSentimentStudy_def chartReady_def
    run_mounted_eq runBaseline_def setBaselineLevel_def init_sys_def host_createStudy_def
    host_init_def removeEntity_def dispatch_def handlers_def host_removeEntity_def study_ids_def
  have r1: "reachable ?s1"
    by (rule reachable.step [OF reachable_run_ready], rule sys_step.remove) (simp_all add: defs)
  have r2: "reachable ?s2"
    by (rule reachable.step [OF r1], rule sys_step.add) (simp_all add: defs sentimentName_def)
  show ?thesis unfolding run_lost_def
    by (rule reachable.step [OF r2], rule sys_step.remove)
      (simp_all add: defs userAddStudy_def studyHandler_def removeSentimentCopies_def
        host_getAllStudies_def sentimentName_def)
qed

lemma removeSentimentCopies_named_ids:
  "named_ids n (host (removeSentimentCopies L t)) =
   filter (\<lambda>j. (sentimentName, j) \<notin> set L) (named_ids n (host t))"
proof (induction L arbitrary: t)
  case Nil
  then show ?case by (simp add: removeSentimentCopies_def)
next
  case (Cons p L)
  obtain m k where p: "p = (m, k)" by (cases p)
  show ?case
  proof (cases "m = sentimentName")
    case True
    with Cons.IH [of "removeEntity k t"] p show ?thesis
      by (simp add: removeSentimentCopies_def frame_simps conj_commute)
  next
    case False
    with Cons.IH [of t] p show ?thesis by (simp add: removeSentimentCopies_def)
  qed
qed

section \<open>Properties\<close>

text \<open>
  C4: in every reachable state the chart carries at most one sentiment overlay
  (a study created as \<open>Overlay\<close>): the invariant the design asks for.
\<close>

theorem overlay_unique:
  assumes "reachable s"
  shows "length (named_ids ''Overlay'' (host s)) \<le> 1"
proof -
  have "sentiment_inv s" using assms by (rule reachable_sentiment_inv)
  then have "overlay_tracked (sentimentId s) (overlays s)" and "distinct (overlays s)"
    by (auto simp: sentiment_inv_def host_wf_def named_ids_def study_ids_def distinct_map_filter)
  then show ?thesis
    using distinct_subset_singleton_length [of "overlays s"] by (cases "sentimentId s") auto
qed

theorem overlay_unique_witness:
  "reachable run_lost \<and> length (named_ids ''Overlay'' (host run_lost)) \<le> 1"
  using overlay_unique [OF reachable_run_lost] reachable_run_lost by simp

text \<open>
  C5: while the handle is a study id, every recomputation with the active chart
  succeeds (the tracked overlay exists, so \<open>getStudyById\<close> does not throw) and
  writes the baseline level of the left scale's visible range to that overlay.
\<close>

theorem baseline_applied_to_tracked_overlay:
  assumes "reachable s" and "sentimentId s = HId i" and "left_scale (host s) = Some (from, to)"
  shows "runBaseline True s =
           s\<lparr>host := host_applyStudyOverrides i [(baseLevelKey, baseLevelPercentage from to)] (host s)\<rparr>"
proof -
  have "sentiment_inv s" using assms(1) by (rule reachable_sentiment_inv)
  with assms(2) have "overlays s = [i]" by (simp add: sentiment_inv_def)
  then have "i \<in> set (study_ids (host s))" using named_ids_subset [of "''Overlay''" "host s"] by auto
  then obtain st where "host_getStudyById i (host s) = Some st"
    using getStudyById_Some_iff by blast
  with assms(2,3) show ?thesis by (simp add: runBaseline_def setBaselineLevel_def)
qed

theorem baseline_applied_to_tracked_overlay_witness:
  "reachable run_scaled \<and> sentimentId run_scaled = HId 0 \<and>
   left_scale (host run_scaled) = Some (-30, 10) \<and>
   runBaseline True run_scaled =
     run_scaled\<lparr>host := host_applyStudyOverrides 0 [(baseLevelKey, baseLevelPercentage (-30) 10)] (host run_scaled)\<rparr>"
proof -
  have h: "sentimentId run_scaled = HId 0" "left_scale (host run_scaled) = Some (-30, 10)"
    by (simp_all add: run_scaled_def run_ready_def overlayCreated_def createSentimentStudy_def
      host_createStudy_def chartReady_def runBaseline_def setBaselineLevel_def run_mounted_eq
      init_sys_def host_init_def)
  show ?thesis
    using baseline_applied_to_tracked_overlay [OF reachable_run_scaled h] reachable_run_scaled h by simp
qed

text \<open>
  C6: when the widget reports the removal of the tracked overlay, the handle is
  cleared, and from then on every widget event leaves the system unchanged
  until an overlay is created again.
\<close>

theorem remove_event_clears_handle:
  assumes "reachable s" and "sentimentId s = HId i"
  shows "sentimentId (removeEntity i s) = HUndefined \<and> (\<forall>e. dispatch e (removeEntity i s) = removeEntity i s)"
proof -
  have "sentiment_inv s" using assms(1) by (rule reachable_sentiment_inv)
  with assms(2) have "subs s \<noteq> []" by (simp add: sentiment_inv_def)
  with assms(2) have cleared: "sentimentId (removeEntity i s) = HUndefined"
    by (simp add: frame_simps)
  then show ?thesis by (simp add: dispatch_falsy)
qed

theorem remove_event_clears_handle_witness:
  "reachable run_ready \<and> sentimentId run_ready = HId 0 \<and>
   sentimentId (removeEntity 0 run_ready) = HUndefined \<and>
   (\<forall>e. dispatch e (removeEntity 0 run_ready) = removeEntity 0 run_ready)"
proof -
  have h: "sentimentId run_ready = HId 0"
    by (simp add: run_ready_def overlayCreated_def createSentimentStudy_def host_createStudy_def
      chartReady_def runBaseline_def setBaselineLevel_def run_mounted_eq init_sys_def host_init_def)
  show ?thesis using remove_event_clears_handle [OF reachable_run_ready h] reachable_run_ready h by simp
qed

text \<open>
  C7: once the \<open>study\<close> handler has stored the un-awaited Promise of
  \<open>createStudy\<close> in \<open>sentimentId\<close>, no step of the system ever changes the handle
  again: the \<open>remove\<close> event compares it with \<open>===\<close> to a study id and never
  matches, and the handler only recreates the overlay when the handle is falsy.
\<close>

theorem promise_handle_sticky:
  assumes "reachable s" and "sys_step s t" and "sentimentId s = HPromise i"
  shows "sentimentId t = HPromise i"
  using promise_step [OF assms] by simp

lemma run_lost_facts:
  "sentimentId run_lost = HPromise 2" "named_ids ''Overlay'' (host run_lost) = []"
  "widget run_lost" "rejections run_lost \<noteq> []"
  by (simp_all add: run_lost_def run_ready_def overlayCreated_def createSentimentStudy_def
      host_createStudy_def chartReady_def runBaseline_def setBaselineLevel_def run_mounted_eq
      init_sys_def host_init_def removeEntity_def dispatch_def handlers_def host_removeEntity_def
      userAddStudy_def studyHandler_def removeSentimentCopies_def host_getAllStudies_def
      sentimentName_def named_ids_def)

theorem promise_handle_sticky_witness:
  "reachable run_lost \<and> sys_step run_lost (dispatch MouseDown run_lost) \<and>
   sentimentId run_lost = HPromise 2 \<and> sentimentId (dispatch MouseDown run_lost) = HPromise 2"
proof -
  have st: "sys_step run_lost (dispatch MouseDown run_lost)"
    by (rule sys_step.event) (simp_all add: run_lost_facts)
  show ?thesis
    using promise_handle_sticky [OF reachable_run_lost st run_lost_facts(1)] reachable_run_lost st
      run_lost_facts(1) by simp
qed

text \<open>
  C8: if the overlay created by the \<open>study\<close> handler is removed, no overlay is
  ever shown again in any later state, and every recomputation is rejected by
  \<open>getStudyById\<close>: the design's promise that the overlay is recreated when the
  widget loses it does not hold.
\<close>

theorem overlay_lost_forever:
  assumes "reachable s" and "sys_step\<^sup>*\<^sup>* s t" and "sentimentId s = HPromise i"
    and "named_ids ''Overlay'' (host s) = []"
  shows "named_ids ''Overlay'' (host t) = [] \<and>
         runBaseline True t = t\<lparr>rejections := rejections t @ [WidgetError ''getStudyById'']\<rparr>"
  using promise_steps [OF assms(2,1,3)] assms(4) by (simp add: runBaseline_promise)

theorem overlay_lost_forever_witness:
  "reachable run_lost \<and> sys_step\<^sup>*\<^sup>* run_lost run_lost \<and> sentimentId run_lost = HPromise 2 \<and>
   named_ids ''Overlay'' (host run_lost) = [] \<and>
   runBaseline True run_lost = run_lost\<lparr>rejections := rejections run_lost @ [WidgetError ''getStudyById'']\<rparr>"
  using overlay_lost_forever [OF reachable_run_lost rtranclp.rtrancl_refl run_lost_facts(1,2)]
    reachable_run_lost run_lost_facts(1,2) by simp


text \<open>
  C10: after the \<open>study\<close> handler has run, no study named \<open>Gradient
  Sentiment\<close> is left on the chart: the loop removes every such study of the
  snapshot it reads, including the one the user just added.
\<close>

theorem studyHandler_removes_copies:
  "named_ids sentimentName (host (studyHandler v s)) = []"
proof -
  define s1 where "s1 = (if \<not> truthy (sentimentId s) \<and> v = sentimentName
                then (case createSentimentStudy s of (i, s') \<Rightarrow> s'\<lparr>sentimentId := HPromise i\<rparr>)
                else s)"
  have "(sentimentName, j) \<in> set (host_getAllStudies (host s1))"
    if "j \<in> set (named_ids sentimentName (host s1))" for j
    using that by (force simp: named_ids_def host_getAllStudies_def)
  then show ?thesis
    by (simp add: studyHandler_def s1_def [symmetric] removeSentimentCopies_named_ids filter_empty_conv)
qed

text \<open>
  C18: in every reachable state, unmounting the component throws a TypeError
  from the cleanup of the mount effect, which calls \<open>remove()\<close> on the
  \<open>tvWidget\<close> of the first render (\<open>null\<close>): the widget is never released.
\<close>

theorem unmount_never_releases_widget:
  assumes "reachable s"
  shows "unmount s = Inl (TypeError ''tvWidget.remove'')"
proof -
  have "sentiment_inv s" using assms by (rule reachable_sentiment_inv)
  then show ?thesis by (simp add: sentiment_inv_def unmount_def)
qed

theorem unmount_never_releases_widget_witness:
  "reachable run_ready \<and> widget run_ready \<and> unmount run_ready = Inl (TypeError ''tvWidget.remove'')"
proof -
  have w: "widget run_ready"
    by (simp add: run_ready_def overlayCreated_def createSentimentStudy_def host_createStudy_def
      chartReady_def runBaseline_def setBaselineLevel_def run_mounted_eq init_sys_def)
  show ?thesis using unmount_never_releases_widget [OF reachable_run_ready] reachable_run_ready w
    by simp
qed

lemma reachable_subs:
  "reachable s \<Longrightarrow> subs s = (if widget s then False # (if chart s then [True] else []) else [])"
proof (induction rule: reachable.induct)
  case (start st)
  then show ?case by (simp add: init_sys_def)
next
  case (step s t)
  have cw: "chart s \<longrightarrow> widget s"
    using reachable_sentiment_inv [OF step.hyps(1)] by (simp add: sentiment_inv_def)
  from sys_step_ui [OF step.hyps(2)] show ?case
  proof (elim disjE conjE)
    assume "ui_of t = ui_of s"
    with step.IH show ?thesis by (simp add: ui_of_def)
  next
    assume "\<not> widget s" "t = mountWidget s"
    with step.IH cw show ?thesis by (simp add: mountWidget_def split: sum.split)
  next
    assume "widget s" "\<not> chart s" "t = chartReady s"
    with step.IH chartReady_ui [of s] show ?thesis by (simp add: ui_of_def)
  qed
qed

text \<open>
  C16: the effect that registers the six handlers runs again when the chart
  becomes ready and never unsubscribes the first group. Once the chart is
  ready, every handler is registered twice. The first group captured
  \<open>chart = null\<close>, so its \<open>setBaselineLevel\<close> returns at the guard: a mouse
  event recomputes the baseline once, through the second group.
\<close>

theorem handlers_registered_twice:
  assumes "reachable s" and "chart s"
  shows "subs s = [False, True] \<and> dispatch MouseDown s = runBaseline True s"
proof -
  have w: "widget s"
    using reachable_sentiment_inv [OF assms(1)] assms(2) by (simp add: sentiment_inv_def)
  have subs: "subs s = [False, True]" using reachable_subs [OF assms(1)] assms(2) w by simp
  have "runBaseline False s = s" by (simp add: runBaseline_def setBaselineLevel_def)
  with subs show ?thesis by (simp add: dispatch_def handlers_def)
qed

theorem handlers_registered_twice_witness:
  "reachable run_ready \<and> chart run_ready \<and> subs run_ready = [False, True] \<and>
   dispatch MouseDown run_ready = runBaseline True run_ready"
proof -
  have c: "chart run_ready"
    by (simp add: run_ready_def overlayCreated_def createSentimentStudy_def chartReady_def
      runBaseline_def run_mounted_eq init_sys_def split: prod.split sum.split)
  show ?thesis using handlers_registered_twice [OF reachable_run_ready c] reachable_run_ready c by simp
qed

lemma sys_step_asset: "sys_step s t \<Longrightarrow> asset_prop t = asset_prop s"
  using sys_step_ui [of s t] chartReady_ui [of s]
  by (auto simp: ui_of_def mountWidget_def split: sum.split)

lemma reachable_null_asset:
  "reachable s \<Longrightarrow> asset_prop s = None \<Longrightarrow>
   \<not> widget s \<and> \<not> chart s \<and> subs s = [] \<and> host s = host_init \<and> rejections s = [] \<and>
   (mount_error s = None \<or> mount_error s = Some (TypeError ''asset.AssetTicker''))"
proof (induction rule: reachable.induct)
  case (start st a0 loc url)
  then show ?case by (simp add: init_sys_def)
next
  case (step s t)
  with sys_step_asset [OF step.hyps(2)] have IH:
    "\<not> widget s \<and> \<not> chart s \<and> subs s = [] \<and> host s = host_init \<and> rejections s = [] \<and>
     (mount_error s = None \<or> mount_error s = Some (TypeError ''asset.AssetTicker''))"
    and a: "asset_prop s = None" by simp_all
  from step.hyps(2) IH show ?case
  proof cases
    case mount
    with a IH show ?thesis by (simp add: mountWidget_def getWidgetOptions_def)
  qed simp_all
qed

text \<open>
  C29: with the default \<open>asset = null\<close> the component never gets a widget.
  The mount effect throws a TypeError while building the options, before
  \<open>new Widget\<close>. So no handler is registered, no study is created, and no
  later step of the component happens.
\<close>

theorem null_asset_never_mounts:
  assumes "reachable s" and "asset_prop s = None"
  shows "\<not> widget s \<and> subs s = [] \<and> host s = host_init \<and>
         (mount_error s = None \<or> mount_error s = Some (TypeError ''asset.AssetTicker''))"
  using reachable_null_asset [OF assms] by simp

theorem null_asset_never_mounts_witness:
  "reachable run_null \<and> asset_prop run_null = None \<and> \<not> widget run_null \<and>
   mount_error run_null = Some (TypeError ''asset.AssetTicker'')"
proof -
  have r: "reachable run_null"
    unfolding run_null_def
    by (rule reachable.step [OF reachable.start]) (rule sys_step.mount, simp_all add: init_sys_def)
  have a: "asset_prop run_null = None" and e: "mount_error run_null = Some (TypeError ''asset.AssetTicker'')"
    by (simp_all add: run_null_def mountWidget_def getWidgetOptions_def init_sys_def)
  show ?thesis using null_asset_never_mounts [OF r a] r a e by simp
qed

end
