(* ===== verification/Datafeed.thy ===== *)
theory Datafeed
  imports Config Sentiment
begin

text \<open>
  The datafeed object the widget calls (\<open>getDatafeed\<close> and \<open>getBars\<close>,
  src/Sentiment/Sentiment.js lines 112--173; the variant without the sentiment
  series in src/tv-code.js lines 110--155). Its calls answer through callbacks
  the widget passes in. The model keeps the \<open>setTimeout\<close> queue explicit: a
  deferred callback is a message appended to \<open>timers\<close>, and the event loop
  delivers the head of the queue, one task at a time, to \<open>delivered\<close>, the
  record of the callbacks the widget has received, in order.
\<close>

section \<open>Definitions\<close>

text \<open>
  The symbol descriptor. A field the code leaves out of the object literal, or
  fills from a table that has no entry, reads as \<open>undefined\<close>: \<^const>\<open>None\<close>.
\<close>

record symbol_info =
  si_type :: "string option"
  si_ticker :: string
  si_name :: string
  si_sector :: "string option"
  si_exchange :: "string option"
  si_timezone :: string
  si_pricescale :: js_number
  si_has_intraday :: bool
  si_visible_plots_set :: string
  si_has_weekly_and_monthly :: bool
  si_supported_resolutions :: "string list"
  si_volume_precision :: nat
  si_data_status :: string
  si_minmov :: nat
  si_session :: "string option"

text \<open>The descriptor of a real asset (the same object literal in both files).\<close>

definition symbolInfo_asset :: "asset \<Rightarrow> symbol_info" where
  "symbolInfo_asset a =
     \<lparr>si_type = js_get tvAssetTypes (AssetClassId a), si_ticker = AssetTicker a,
      si_name = AssetName a, si_sector = Some (Category a), si_exchange = None,
      si_timezone = ''Etc/UTC'', si_pricescale = js_pow 10 (Decimals a), si_has_intraday = True,
      si_visible_plots_set = ''ohlc'', si_has_weekly_and_monthly = False,
      si_supported_resolutions = supported_resolutions (getConfigurationData ()),
      si_volume_precision = 2, si_data_status = ''streaming'', si_minmov = 1,
      si_session = js_get assetsSessions (AssetClassId a)\<rparr>"

text \<open>The hard-coded descriptor of the sentiment series (its \<open>type\<close> is the string \<open>'undefined'\<close>).\<close>

definition symbolInfo_sentiment :: "string \<Rightarrow> symbol_info" where
  "symbolInfo_sentiment symbolName =
     \<lparr>si_type = Some ''undefined'', si_ticker = symbolName, si_name = symbolName,
      si_sector = None, si_exchange = Some [], si_timezone = ''Etc/UTC'', si_pricescale = JNum 1000,
      si_has_intraday = True, si_visible_plots_set = ''ohlc'', si_has_weekly_and_monthly = False,
      si_supported_resolutions = supported_resolutions (getConfigurationData ()),
      si_volume_precision = 2, si_data_status = ''streaming'', si_minmov = 1,
      si_session = Some ''0000-0000''\<rparr>"

text \<open>
  \<open>resolveSymbol\<close> builds the descriptor synchronously; \<open>asset.Decimals\<close> is read
  first, so a \<open>null\<close> asset throws before the symbol name is looked at, and the
  async function's promise rejects.
\<close>

definition resolveSymbolInfo :: "asset option \<Rightarrow> string \<Rightarrow> js_error + symbol_info" where
  "resolveSymbolInfo asset symbolName =
     (case asset of
        None \<Rightarrow> Inl (TypeError ''asset.Decimals'')
      | Some a \<Rightarrow> Inr (if symbolName = sentimentName then symbolInfo_sentiment symbolName
                       else symbolInfo_asset a))"

definition resolveSymbolInfo_basic :: "asset option \<Rightarrow> string \<Rightarrow> js_error + symbol_info" where
  "resolveSymbolInfo_basic asset symbolName =
     (case asset of
        None \<Rightarrow> Inl (TypeError ''asset.Decimals'')
      | Some a \<Rightarrow> Inr (symbolInfo_asset a))"

text \<open>The callbacks the widget receives, and the datafeed's state.\<close>

datatype 'bar feed_msg =
    OnReadyMsg config
  | SymbolResolvedMsg symbol_info
  | HistoryMsg "'bar list" bool
  | TickMsg nat 'bar

record 'bar feed =
  timers :: "'bar feed_msg list"
  delivered :: "'bar feed_msg list"
  rejected :: "js_error list"
  listeners :: "nat list"

definition onReady :: "'bar feed \<Rightarrow> 'bar feed" where
  "onReady f = f\<lparr>timers := timers f @ [OnReadyMsg (getConfigurationData ())]\<rparr>"

definition resolveSymbol :: "asset option \<Rightarrow> string \<Rightarrow> 'bar feed \<Rightarrow> 'bar feed" where
  "resolveSymbol asset symbolName f =
     (case resolveSymbolInfo asset symbolName of
        Inl e \<Rightarrow> f\<lparr>rejected := rejected f @ [e]\<rparr>
      | Inr si \<Rightarrow> f\<lparr>timers := timers f @ [SymbolResolvedMsg si]\<rparr>)"

definition resolveSymbol_basic :: "asset option \<Rightarrow> string \<Rightarrow> 'bar feed \<Rightarrow> 'bar feed" where
  "resolveSymbol_basic asset symbolName f =
     (case resolveSymbolInfo_basic asset symbolName of
        Inl e \<Rightarrow> f\<lparr>rejected := rejected f @ [e]\<rparr>
      | Inr si \<Rightarrow> f\<lparr>timers := timers f @ [SymbolResolvedMsg si]\<rparr>)"

text \<open>
  \<open>getBars\<close> is an async function without \<open>await\<close>: its body, and so the
  callback, runs synchronously on the caller's stack. \<open>priceData\<close> is a
  module-level value the sources do not define.
\<close>

definition getBars :: "'bar list \<Rightarrow> bool \<Rightarrow> 'bar feed \<Rightarrow> 'bar feed" where
  "getBars priceData firstDataRequest f =
     f\<lparr>delivered := delivered f @
        [HistoryMsg (if firstDataRequest then priceData else []) (\<not> firstDataRequest)]\<rparr>"

text \<open>
  \<open>subscribeBars\<close> registers \<open>onTick\<close> with the upstream subscription whatever
  \<open>listenerGuid\<close> is; an update from upstream reaches every registered
  callback. \<open>unsubscribeBars\<close> has an empty body.
\<close>

definition subscribeBars :: "nat \<Rightarrow> 'bar feed \<Rightarrow> 'bar feed" where
  "subscribeBars listenerGuid f = f\<lparr>listeners := listeners f @ [listenerGuid]\<rparr>"

definition unsubscribeBars :: "nat \<Rightarrow> 'bar feed \<Rightarrow> 'bar feed" where
  "unsubscribeBars listenerGuid f = f"

definition upstreamUpdate :: "'bar \<Rightarrow> 'bar feed \<Rightarrow> 'bar feed" where
  "upstreamUpdate message f = f\<lparr>delivered := delivered f @ map (\<lambda>g. TickMsg g message) (listeners f)\<rparr>"

text \<open>One turn of the event loop: the oldest timer fires.\<close>

definition run_timer :: "'bar feed \<Rightarrow> 'bar feed" where
  "run_timer f =
     (case timers f of
        [] \<Rightarrow> f
      | m # ms \<Rightarrow> f\<lparr>timers := ms, delivered := delivered f @ [m]\<rparr>)"

primrec run_timers :: "nat \<Rightarrow> 'bar feed \<Rightarrow> 'bar feed" where
  "run_timers 0 f = f"
| "run_timers (Suc n) f = run_timers n (run_timer f)"

section \<open>Lemmas\<close>

lemma run_timers_take_drop:
  "n \<le> length (timers f) \<Longrightarrow>
   delivered (run_timers n f) = delivered f @ take n (timers f) \<and>
   timers (run_timers n f) = drop n (timers f)"
proof (induction n arbitrary: f)
  case (Suc n)
  then obtain m ms where t: "timers f = m # ms" by (cases "timers f") auto
  with Suc.prems have "n \<le> length (timers (run_timer f))" by (simp add: run_timer_def)
  with Suc.IH [of "run_timer f"] t show ?case by (simp add: run_timer_def)
qed simp

lemma run_timers_deferred:
  "delivered (run_timers (Suc (length (timers f))) (f\<lparr>timers := timers f @ [m]\<rparr>)) =
     delivered f @ timers f @ [m] \<and>
   timers (run_timers (Suc (length (timers f))) (f\<lparr>timers := timers f @ [m]\<rparr>)) = []"
  using run_timers_take_drop [of "Suc (length (timers f))" "f\<lparr>timers := timers f @ [m]\<rparr>"] by simp

section \<open>Properties\<close>

text \<open>
  C11: \<open>onReady\<close> does not call the widget's callback on the caller's stack; the
  callback fires exactly once, with the configuration data, when the event loop
  reaches the timer, after the timers queued before it.
\<close>

theorem onReady_deferred_once:
  "delivered (onReady f) = delivered f \<and>
   delivered (run_timers (Suc (length (timers f))) (onReady f)) =
     delivered f @ timers f @ [OnReadyMsg (getConfigurationData ())] \<and>
   timers (run_timers (Suc (length (timers f))) (onReady f)) = []"
  using run_timers_deferred [of f "OnReadyMsg (getConfigurationData ())"]
  by (simp add: onReady_def)

text \<open>
  C12: resolving a real asset answers asynchronously, exactly once, with a
  descriptor whose price scale is \<open>10 ** Decimals\<close> and whose type and session
  come from the asset-class tables; for an asset class the tables do not list,
  the descriptor is still delivered, with \<open>type\<close> and \<open>session\<close> undefined,
  instead of an error.
\<close>

theorem resolveSymbol_asset:
  assumes "symbolName \<noteq> sentimentName"
  shows "delivered (resolveSymbol (Some a) symbolName f) = delivered f \<and>
    delivered (run_timers (Suc (length (timers f))) (resolveSymbol (Some a) symbolName f)) =
      delivered f @ timers f @ [SymbolResolvedMsg (symbolInfo_asset a)] \<and>
    si_pricescale (symbolInfo_asset a) = js_pow 10 (Decimals a) \<and>
    si_type (symbolInfo_asset a) =
      (case AssetClassId a of Coins \<Rightarrow> Some ''crypto'' | Equity \<Rightarrow> Some ''stock''
       | Commodity \<Rightarrow> Some ''commodity'' | Index \<Rightarrow> Some ''index'' | CurrencyPairs \<Rightarrow> Some ''forex''
       | OtherClass n \<Rightarrow> None) \<and>
    si_session (symbolInfo_asset a) =
      (case AssetClassId a of Coins \<Rightarrow> Some ''24x7'' | Equity \<Rightarrow> Some ''0000-0000''
       | Commodity \<Rightarrow> Some ''0000-0000'' | Index \<Rightarrow> Some ''24x7''
       | CurrencyPairs \<Rightarrow> Some ''0000-0000'' | OtherClass n \<Rightarrow> None)"
proof -
  have r: "resolveSymbol (Some a) symbolName f = f\<lparr>timers := timers f @ [SymbolResolvedMsg (symbolInfo_asset a)]\<rparr>"
    using assms by (simp add: resolveSymbol_def resolveSymbolInfo_def)
  show ?thesis
    using run_timers_deferred [of f "SymbolResolvedMsg (symbolInfo_asset a)"]
    by (simp add: r, cases "AssetClassId a")
      (simp_all add: symbolInfo_asset_def tvAssetTypes_def assetsSessions_def)
qed

theorem resolveSymbol_asset_witness:
  "''BTC'' \<noteq> sentimentName \<and>
   delivered (run_timers 1 (resolveSymbol (Some \<lparr>AssetClassId = Coins, AssetTicker = ''BTC'',
       AssetName = ''Bitcoin'', Decimals = 2, Category = ''crypto''\<rparr>) ''BTC''
       (\<lparr>timers = [], delivered = [], rejected = [], listeners = []\<rparr> :: nat feed))) =
     [SymbolResolvedMsg (symbolInfo_asset \<lparr>AssetClassId = Coins, AssetTicker = ''BTC'',
       AssetName = ''Bitcoin'', Decimals = 2, Category = ''crypto''\<rparr>)] \<and>
   si_pricescale (symbolInfo_asset \<lparr>AssetClassId = Coins, AssetTicker = ''BTC'',
       AssetName = ''Bitcoin'', Decimals = 2, Category = ''crypto''\<rparr>) = JNum 100"
proof -
  have h: "''BTC'' \<noteq> sentimentName" by (simp add: sentimentName_def)
  show ?thesis
    using resolveSymbol_asset [OF h, of "\<lparr>AssetClassId = Coins, AssetTicker = ''BTC'',
       AssetName = ''Bitcoin'', Decimals = 2, Category = ''crypto''\<rparr>"
       "\<lparr>timers = [], delivered = [], rejected = [], listeners = []\<rparr> :: nat feed"] h
    by (simp add: js_pow_10)
qed

text \<open>
  C13: \<open>getBars\<close> answers the first request with the known bars and
  \<open>noData = false\<close> and any later request with no bars and \<open>noData = true\<close>;
  both answers are given synchronously, before \<open>getBars\<close> returns, and no
  timer is queued.
\<close>

theorem getBars_first_then_empty:
  "delivered (getBars priceData False (getBars priceData True f)) =
     delivered f @ [HistoryMsg priceData False, HistoryMsg [] True] \<and>
   timers (getBars priceData False (getBars priceData True f)) = timers f"
  by (simp add: getBars_def)

text \<open>
  C14: \<open>unsubscribeBars\<close> changes nothing, for a known or an unknown listener;
  a listener that has unsubscribed still receives every upstream update.
\<close>

theorem unsubscribeBars_noop:
  "unsubscribeBars g f = f \<and>
   TickMsg g b \<in> set (delivered (upstreamUpdate b (unsubscribeBars g (subscribeBars g f))))"
  by (simp add: unsubscribeBars_def subscribeBars_def upstreamUpdate_def)




end
