(* ===== verification/Datafeed_Session.thy ===== *)
theory Datafeed_Session
  imports Datafeed "HOL-Library.Multiset"
begin

text \<open>
  The datafeed object as the widget sees it: one interface, five calls, and two
  implementations (\<open>getDatafeed\<close> of src/Sentiment/Sentiment.js and of
  src/tv-code.js). A session is a list of what happens to the datafeed: the
  widget calls it, the event loop runs one timer task, or the upstream source
  publishes a bar. The event loop run to the end is \<open>drain\<close>. Its
  termination is proved with the length of the timer queue as the measure.
  The theorems say what a whole session delivers to the widget.
\<close>

section \<open>The interface and its two implementations\<close>

text \<open>
  A call of the widget to the datafeed, with the arguments the code reads.
  \<open>getBars\<close> reads only \<open>periodParams.firstDataRequest\<close>, and
  \<open>subscribeBars\<close> and \<open>unsubscribeBars\<close> only the listener id.
\<close>

datatype feed_call =
    CallOnReady
  | CallResolveSymbol string
  | CallGetBars bool
  | CallSubscribeBars nat
  | CallUnsubscribeBars nat

text \<open>
  The object literal of \<open>getDatafeed()\<close> in Sentiment.js (lines 121--173),
  as the function that answers a call. \<open>asset\<close> and \<open>priceData\<close> are
  read from the enclosing scope.
\<close>

definition getDatafeed :: "asset option \<Rightarrow> 'bar list \<Rightarrow> feed_call \<Rightarrow> 'bar feed \<Rightarrow> 'bar feed" where
  "getDatafeed asset priceData c f =
     (case c of
        CallOnReady \<Rightarrow> onReady f
      | CallResolveSymbol symbolName \<Rightarrow> resolveSymbol asset symbolName f
      | CallGetBars firstDataRequest \<Rightarrow> getBars priceData firstDataRequest f
      | CallSubscribeBars listenerGuid \<Rightarrow> subscribeBars listenerGuid f
      | CallUnsubscribeBars listenerGuid \<Rightarrow> unsubscribeBars listenerGuid f)"

text \<open>\<open>getBars\<close> of tv-code.js (lines 108--115).\<close>

definition getBars_basic :: "'bar list \<Rightarrow> bool \<Rightarrow> 'bar feed \<Rightarrow> 'bar feed" where
  "getBars_basic priceData firstDataRequest f =
     f\<lparr>delivered := delivered f @
        [HistoryMsg (if firstDataRequest then priceData else []) (\<not> firstDataRequest)]\<rparr>"

text \<open>
  \<open>getDatafeed()\<close> of tv-code.js (lines 119--155). Its \<open>onReady\<close>,
  \<open>subscribeBars\<close> and \<open>unsubscribeBars\<close> are the same text as in
  Sentiment.js. Its \<open>resolveSymbol\<close> has no sentiment series.
\<close>

definition getDatafeed_basic ::
  "asset option \<Rightarrow> 'bar list \<Rightarrow> feed_call \<Rightarrow> 'bar feed \<Rightarrow> 'bar feed" where
  "getDatafeed_basic asset priceData c f =
     (case c of
        CallOnReady \<Rightarrow> onReady f
      | CallResolveSymbol symbolName \<Rightarrow> resolveSymbol_basic asset symbolName f
      | CallGetBars firstDataRequest \<Rightarrow> getBars_basic priceData firstDataRequest f
      | CallSubscribeBars listenerGuid \<Rightarrow> subscribeBars listenerGuid f
      | CallUnsubscribeBars listenerGuid \<Rightarrow> unsubscribeBars listenerGuid f)"

section \<open>Sessions and the event loop\<close>

datatype 'bar feed_event = WidgetCall feed_call | TimerTurn | UpstreamTick 'bar

text \<open>A session run against a datafeed \<open>df\<close>, any implementation of the interface.\<close>

fun run_session ::
  "(feed_call \<Rightarrow> 'bar feed \<Rightarrow> 'bar feed) \<Rightarrow> 'bar feed_event list \<Rightarrow> 'bar feed \<Rightarrow> 'bar feed" where
  "run_session df [] f = f"
| "run_session df (WidgetCall c # es) f = run_session df es (df c f)"
| "run_session df (TimerTurn # es) f = run_session df es (run_timer f)"
| "run_session df (UpstreamTick b # es) f = run_session df es (upstreamUpdate b f)"

text \<open>The event loop runs timer tasks until the queue is empty.\<close>

function drain :: "'bar feed \<Rightarrow> 'bar feed" where
  "drain f = (if timers f = [] then f else drain (run_timer f))"
  by pat_completeness auto
termination
  by (relation "measure (\<lambda>f. length (timers f))") (auto simp: run_timer_def neq_Nil_conv)

declare drain.simps [simp del]

section \<open>What the widget should receive\<close>

text \<open>
  The answer the datafeed contract (spec section 4.1) asks for each call of a
  session when the asset is set. \<open>onReady\<close> gets the configuration, and
  \<open>resolveSymbol\<close> gets the descriptor: the hard-coded one for the sentiment
  series, the asset's otherwise. The first \<open>getBars\<close> gets the known bars,
  and a later one gets none, with \<open>noData\<close>. Subscribing and unsubscribing
  are answered by later ticks, not by a callback.
\<close>

fun call_answers :: "asset \<Rightarrow> 'bar list \<Rightarrow> feed_call \<Rightarrow> 'bar feed_msg list" where
  "call_answers a priceData CallOnReady = [OnReadyMsg (getConfigurationData ())]"
| "call_answers a priceData (CallResolveSymbol n) =
     [SymbolResolvedMsg (if n = sentimentName then symbolInfo_sentiment n else symbolInfo_asset a)]"
| "call_answers a priceData (CallGetBars first) = [HistoryMsg (if first then priceData else []) (\<not> first)]"
| "call_answers a priceData (CallSubscribeBars g) = []"
| "call_answers a priceData (CallUnsubscribeBars g) = []"

fun event_answers :: "asset \<Rightarrow> 'bar list \<Rightarrow> 'bar feed_event \<Rightarrow> 'bar feed_msg list" where
  "event_answers a priceData (WidgetCall c) = call_answers a priceData c"
| "event_answers a priceData e = []"

text \<open>The answers the code defers through \<open>setTimeout\<close>.\<close>

fun deferred_msg :: "'bar feed_msg \<Rightarrow> bool" where
  "deferred_msg (OnReadyMsg c) = True"
| "deferred_msg (SymbolResolvedMsg si) = True"
| "deferred_msg m = False"

text \<open>
  A descriptor has the type the widget expects when no required field of
  spec section 3 is \<open>undefined\<close>: the instrument type and the session are
  strings, the price scale is a positive finite number, and some resolution
  is supported.
\<close>

fun finite_positive :: "js_number \<Rightarrow> bool" where
  "finite_positive (JNum x) = (0 < x)"
| "finite_positive n = False"

definition descriptor_typed :: "symbol_info \<Rightarrow> bool" where
  "descriptor_typed si \<longleftrightarrow>
     si_type si \<noteq> None \<and> si_session si \<noteq> None \<and> finite_positive (si_pricescale si) \<and>
     si_supported_resolutions si \<noteq> []"

text \<open>
  Everything the widget has received or will receive: the callbacks already
  delivered, then the timers still queued.
\<close>

definition pending :: "'bar feed \<Rightarrow> 'bar feed_msg list" where
  "pending f = delivered f @ timers f"

section \<open>Lemmas\<close>

lemma drain_eq: "drain f = f\<lparr>timers := [], delivered := delivered f @ timers f\<rparr>"
proof (induction f rule: drain.induct)
  case (1 f)
  show ?case
  proof (cases "timers f")
    case Nil
    then show ?thesis by (simp add: drain.simps [of f])
  next
    case (Cons m ms)
    with "1.IH" show ?thesis by (simp add: drain.simps [of f] run_timer_def)
  qed
qed

text \<open>
  A call adds its answers to what is pending: at the end when deferred, and
  before the queued timers when given synchronously. A timer task moves the
  head of the queue to the delivered callbacks and changes nothing pending.
\<close>

lemma getDatafeed_pending_mset:
  "mset (pending (getDatafeed (Some a) pd c f)) = mset (pending f) + mset (call_answers a pd c)"
  by (cases c) (simp_all add: pending_def getDatafeed_def onReady_def resolveSymbol_def
      resolveSymbolInfo_def getBars_def subscribeBars_def unsubscribeBars_def)

lemma getDatafeed_pending_deferred:
  "filter deferred_msg (pending (getDatafeed (Some a) pd c f)) =
   filter deferred_msg (pending f) @ filter deferred_msg (call_answers a pd c)"
  by (cases c) (simp_all add: pending_def getDatafeed_def onReady_def resolveSymbol_def
      resolveSymbolInfo_def getBars_def subscribeBars_def unsubscribeBars_def)

lemma run_timer_pending: "pending (run_timer f) = pending f"
  by (simp add: pending_def run_timer_def split: list.split)

lemma delivered_drain: "delivered (drain f) = pending f"
  by (simp add: drain_eq pending_def)

lemma timers_drain: "timers (drain f) = []"
  by (simp add: drain_eq)

lemma run_session_pending:
  assumes "\<forall>b. UpstreamTick b \<notin> set es"
  shows "mset (pending (run_session (getDatafeed (Some a) pd) es f)) =
           mset (pending f) + mset (concat (map (event_answers a pd) es)) \<and>
         filter deferred_msg (pending (run_session (getDatafeed (Some a) pd) es f)) =
           filter deferred_msg (pending f) @ filter deferred_msg (concat (map (event_answers a pd) es))"
  using assms
proof (induction es arbitrary: f)
  case (Cons e es)
  then have IH: "\<And>f. mset (pending (run_session (getDatafeed (Some a) pd) es f)) =
           mset (pending f) + mset (concat (map (event_answers a pd) es)) \<and>
         filter deferred_msg (pending (run_session (getDatafeed (Some a) pd) es f)) =
           filter deferred_msg (pending f) @ filter deferred_msg (concat (map (event_answers a pd) es))"
    by simp
  show ?case
  proof (cases e)
    case (WidgetCall c)
    with IH [of "getDatafeed (Some a) pd c f"] show ?thesis
      by (simp add: getDatafeed_pending_mset getDatafeed_pending_deferred add.assoc)
  next
    case TimerTurn
    with IH [of "run_timer f"] show ?thesis by (simp add: run_timer_pending)
  next
    case (UpstreamTick b)
    with Cons.prems show ?thesis by auto
  qed
qed simp

lemma getDatafeed_variants_agree:
  "c \<noteq> CallResolveSymbol sentimentName \<Longrightarrow> getDatafeed asset pd c f = getDatafeed_basic asset pd c f"
  by (cases c) (simp_all add: getDatafeed_def getDatafeed_basic_def resolveSymbol_def
      resolveSymbol_basic_def resolveSymbolInfo_def resolveSymbolInfo_basic_def getBars_def
      getBars_basic_def split: option.split)

lemma symbolInfo_sentiment_ne_asset: "symbolInfo_sentiment n \<noteq> symbolInfo_asset a"
  by (simp add: symbolInfo_sentiment_def symbolInfo_asset_def)

section \<open>Properties\<close>

text \<open>
  C24: the event loop always ends, and then every call of a session has been
  answered exactly once, with the answer the contract asks for. Nothing is
  lost and nothing is duplicated: as a multiset, what the widget has received
  is what it had, plus the answers to its calls.
\<close>

theorem session_answered_exactly_once:
  assumes "\<forall>b. UpstreamTick b \<notin> set es"
  shows "timers (drain (run_session (getDatafeed (Some a) pd) es f)) = [] \<and>
         mset (delivered (drain (run_session (getDatafeed (Some a) pd) es f))) =
           mset (delivered f) + mset (timers f) + mset (concat (map (event_answers a pd) es))"
  using run_session_pending [OF assms, of a pd f] by (simp add: delivered_drain timers_drain pending_def)

theorem session_answered_exactly_once_witness:
  "(\<forall>b. UpstreamTick b \<notin> set [WidgetCall CallOnReady, WidgetCall (CallGetBars True)]) \<and>
   timers (drain (run_session (getDatafeed (Some \<lparr>AssetClassId = Coins, AssetTicker = ''BTC'',
       AssetName = ''Bitcoin'', Decimals = 2, Category = ''crypto''\<rparr>) [1, 2, 3::nat])
     [WidgetCall CallOnReady, WidgetCall (CallGetBars True)]
     \<lparr>timers = [], delivered = [], rejected = [], listeners = []\<rparr>)) = [] \<and>
   mset (delivered (drain (run_session (getDatafeed (Some \<lparr>AssetClassId = Coins, AssetTicker = ''BTC'',
       AssetName = ''Bitcoin'', Decimals = 2, Category = ''crypto''\<rparr>) [1, 2, 3::nat])
     [WidgetCall CallOnReady, WidgetCall (CallGetBars True)]
     \<lparr>timers = [], delivered = [], rejected = [], listeners = []\<rparr>))) =
   mset [OnReadyMsg (getConfigurationData ()), HistoryMsg [1, 2, 3] False]"
  using session_answered_exactly_once [of "[WidgetCall CallOnReady, WidgetCall (CallGetBars True)]"
      "\<lparr>AssetClassId = Coins, AssetTicker = ''BTC'', AssetName = ''Bitcoin'', Decimals = 2,
        Category = ''crypto''\<rparr>" "[1, 2, 3::nat]" "\<lparr>timers = [], delivered = [], rejected = [], listeners = []\<rparr>"]
  by simp

text \<open>
  C25: the answers deferred through \<open>setTimeout\<close> (\<open>onReady\<close> and
  \<open>resolveSymbol\<close>) reach the widget in the order of its calls, after those
  queued before the session, whatever the session interleaves with them.
\<close>

theorem deferred_answers_in_call_order:
  assumes "\<forall>b. UpstreamTick b \<notin> set es"
  shows "filter deferred_msg (delivered (drain (run_session (getDatafeed (Some a) pd) es f))) =
         filter deferred_msg (delivered f @ timers f) @
         filter deferred_msg (concat (map (event_answers a pd) es))"
  using run_session_pending [OF assms, of a pd f] by (simp add: delivered_drain timers_drain pending_def)

theorem deferred_answers_in_call_order_witness:
  "(\<forall>b. UpstreamTick b \<notin> set [WidgetCall (CallResolveSymbol ''BTC''), WidgetCall CallOnReady]) \<and>
   filter deferred_msg (delivered (drain (run_session (getDatafeed (Some \<lparr>AssetClassId = Coins,
       AssetTicker = ''BTC'', AssetName = ''Bitcoin'', Decimals = 2, Category = ''crypto''\<rparr>) ([] :: nat list))
     [WidgetCall (CallResolveSymbol ''BTC''), WidgetCall CallOnReady]
     \<lparr>timers = [], delivered = [], rejected = [], listeners = []\<rparr>))) =
   [SymbolResolvedMsg (symbolInfo_asset \<lparr>AssetClassId = Coins, AssetTicker = ''BTC'',
       AssetName = ''Bitcoin'', Decimals = 2, Category = ''crypto''\<rparr>),
    OnReadyMsg (getConfigurationData ())]"
proof -
  have h: "''BTC'' \<noteq> sentimentName" by (simp add: sentimentName_def)
  show ?thesis
    using deferred_answers_in_call_order [of "[WidgetCall (CallResolveSymbol ''BTC''), WidgetCall CallOnReady]"
      "\<lparr>AssetClassId = Coins, AssetTicker = ''BTC'', AssetName = ''Bitcoin'', Decimals = 2,
        Category = ''crypto''\<rparr>" "[] :: nat list" "\<lparr>timers = [], delivered = [], rejected = [], listeners = []\<rparr>"] h
    by simp
qed

text \<open>
  C26: over whole sessions, the datafeed of Sentiment.js and that of
  tv-code.js are indistinguishable as long as the widget never resolves the
  sentiment series: same callbacks, same order, same rejections.
\<close>

theorem datafeed_variants_equivalent:
  assumes "\<forall>e \<in> set es. e \<noteq> WidgetCall (CallResolveSymbol sentimentName)"
  shows "run_session (getDatafeed asset pd) es f = run_session (getDatafeed_basic asset pd) es f"
  using assms
proof (induction es arbitrary: f)
  case (Cons e es)
  then show ?case by (cases e) (simp_all add: getDatafeed_variants_agree)
qed simp

theorem datafeed_variants_equivalent_witness:
  "run_session (getDatafeed (None :: asset option) ([] :: nat list))
     [WidgetCall CallOnReady, WidgetCall (CallResolveSymbol ''ETH''), TimerTurn]
     \<lparr>timers = [], delivered = [], rejected = [], listeners = []\<rparr> =
   run_session (getDatafeed_basic None [])
     [WidgetCall CallOnReady, WidgetCall (CallResolveSymbol ''ETH''), TimerTurn]
     \<lparr>timers = [], delivered = [], rejected = [], listeners = []\<rparr>"
proof -
  have h: "\<forall>e \<in> set [WidgetCall CallOnReady, WidgetCall (CallResolveSymbol ''ETH''), (TimerTurn :: nat feed_event)].
      e \<noteq> WidgetCall (CallResolveSymbol sentimentName)"
    by (simp add: sentimentName_def)
  show ?thesis using datafeed_variants_equivalent [OF h] h by simp
qed

text \<open>
  C27: resolving the ticker of a descriptor gives the descriptor back, except
  when the asset's ticker is the sentiment series' name and the descriptor is
  the asset's. \<open>resolveSymbol\<close> ignores the name it is given unless it is the
  sentiment series, so such an asset can never be resolved to itself.
\<close>

theorem resolveSymbol_roundtrip:
  assumes "resolveSymbolInfo (Some a) n = Inr si"
  shows "resolveSymbolInfo (Some a) (si_ticker si) = Inr si \<longleftrightarrow>
         n = sentimentName \<or> AssetTicker a \<noteq> sentimentName"
  using assms symbolInfo_sentiment_ne_asset [of _ a] symbolInfo_sentiment_ne_asset [of _ a, symmetric]
  by (auto simp: resolveSymbolInfo_def symbolInfo_asset_def symbolInfo_sentiment_def split: if_splits)

theorem resolveSymbol_roundtrip_witness:
  "resolveSymbolInfo (Some \<lparr>AssetClassId = Index, AssetTicker = ''SPX'', AssetName = ''S&P 500'',
       Decimals = 2, Category = ''index''\<rparr>) ''SPX'' =
     Inr (symbolInfo_asset \<lparr>AssetClassId = Index, AssetTicker = ''SPX'', AssetName = ''S&P 500'',
       Decimals = 2, Category = ''index''\<rparr>) \<and>
   resolveSymbolInfo (Some \<lparr>AssetClassId = Index, AssetTicker = ''SPX'', AssetName = ''S&P 500'',
       Decimals = 2, Category = ''index''\<rparr>)
     (si_ticker (symbolInfo_asset \<lparr>AssetClassId = Index, AssetTicker = ''SPX'', AssetName = ''S&P 500'',
       Decimals = 2, Category = ''index''\<rparr>)) =
     Inr (symbolInfo_asset \<lparr>AssetClassId = Index, AssetTicker = ''SPX'', AssetName = ''S&P 500'',
       Decimals = 2, Category = ''index''\<rparr>)"
proof -
  let ?a = "\<lparr>AssetClassId = Index, AssetTicker = ''SPX'', AssetName = ''S&P 500'',
       Decimals = 2, Category = ''index''\<rparr>"
  have h: "resolveSymbolInfo (Some ?a) ''SPX'' = Inr (symbolInfo_asset ?a)"
    by (simp add: resolveSymbolInfo_def sentimentName_def)
  show ?thesis using resolveSymbol_roundtrip [OF h] h by (simp add: sentimentName_def)
qed

text \<open>
  C28: a descriptor the datafeed resolves has the type the widget expects
  exactly when it is the sentiment series', or the asset's class is one the
  tables list and its price scale does not overflow. For any other class,
  \<open>type\<close> and \<open>session\<close> are \<open>undefined\<close>, and beyond 308 decimals the price
  scale is \<open>Infinity\<close>.
\<close>

theorem resolveSymbol_descriptor_typed:
  assumes "resolveSymbolInfo (Some a) n = Inr si"
  shows "descriptor_typed si \<longleftrightarrow>
         n = sentimentName \<or> ((\<forall>k. AssetClassId a \<noteq> OtherClass k) \<and> Decimals a \<le> 308)"
  using assms
  by (cases "AssetClassId a")
    (auto simp: resolveSymbolInfo_def descriptor_typed_def symbolInfo_asset_def symbolInfo_sentiment_def
      getConfigurationData_def tvAssetTypes_def assetsSessions_def js_pow_10 split: if_splits)

theorem resolveSymbol_descriptor_typed_witness:
  "resolveSymbolInfo (Some \<lparr>AssetClassId = OtherClass 7, AssetTicker = ''XYZ'', AssetName = ''Xyz'',
       Decimals = 0, Category = ''other''\<rparr>) ''XYZ'' =
     Inr (symbolInfo_asset \<lparr>AssetClassId = OtherClass 7, AssetTicker = ''XYZ'', AssetName = ''Xyz'',
       Decimals = 0, Category = ''other''\<rparr>) \<and>
   \<not> descriptor_typed (symbolInfo_asset \<lparr>AssetClassId = OtherClass 7, AssetTicker = ''XYZ'',
       AssetName = ''Xyz'', Decimals = 0, Category = ''other''\<rparr>)"
proof -
  let ?a = "\<lparr>AssetClassId = OtherClass 7, AssetTicker = ''XYZ'', AssetName = ''Xyz'',
       Decimals = 0, Category = ''other''\<rparr>"
  have h: "resolveSymbolInfo (Some ?a) ''XYZ'' = Inr (symbolInfo_asset ?a)"
    by (simp add: resolveSymbolInfo_def sentimentName_def)
  show ?thesis using resolveSymbol_descriptor_typed [OF h] h by (simp add: sentimentName_def)
qed

end
