(* ===== verification/App.thy ===== *)
theory App
  imports Sentiment_Properties Datafeed_Session
begin

text \<open>
  The sentiment component, composed with the datafeed its widget was built
  with and with React's lifecycle around it. React decides when the
  component is torn down. The widget outlives the component, because the
  teardown never removes it: it keeps calling its datafeed, and the event
  loop keeps running the datafeed's timers. The module-level
  \<open>sentimentId\<close> also outlives the component, and a component mounted later
  starts with it.
\<close>

section \<open>The composed system\<close>

text \<open>
  \<open>comp\<close> is the component with the widget and the module state,
  \<open>datafeed\<close> the state of the datafeed object of \<open>getWidgetOptions\<close>,
  \<open>mounted\<close> whether React still has the component, \<open>app_errors\<close> the
  errors React reports from effects and cleanups, and \<open>price_data\<close> the
  module-level \<open>priceData\<close> \<open>getBars\<close> reads.
\<close>

record app =
  comp :: sys
  datafeed :: "nat feed"
  mounted :: bool
  app_errors :: "js_error list"
  price_data :: "nat list"

definition init_app :: "settings \<Rightarrow> asset option \<Rightarrow> string \<Rightarrow> string \<Rightarrow> nat list \<Rightarrow> app" where
  "init_app st asset locale url pd =
     \<lparr>comp = init_sys st asset locale url,
      datafeed = \<lparr>timers = [], delivered = [], rejected = [], listeners = []\<rparr>,
      mounted = True, app_errors = [], price_data = pd\<rparr>"

text \<open>
  React tears the component down by running the cleanup of its mount effect
  (\<^const>\<open>unmount\<close>). When the cleanup throws, React reports the error and
  the component is gone all the same.
\<close>

definition app_unmount :: "app \<Rightarrow> app" where
  "app_unmount a =
     (case unmount (comp a) of
        Inl e \<Rightarrow> a\<lparr>mounted := False, app_errors := app_errors a @ [e]\<rparr>
      | Inr s \<Rightarrow> a\<lparr>comp := s, mounted := False\<rparr>)"

text \<open>
  A new instance of the component, mounted with the same props after the old
  one was torn down. Its React state, its widget and its datafeed are new.
  The module-level \<open>sentimentId\<close> (Sentiment.js line 72) is the old one,
  because the module is evaluated once. The old widget is left running and
  is not followed further.
\<close>

definition remount :: "app \<Rightarrow> app" where
  "remount a =
     a\<lparr>comp := (init_sys (props (comp a)) (asset_prop (comp a)) (locale_prop (comp a))
                 (blobCdnUrl (comp a)))\<lparr>sentimentId := sentimentId (comp a)\<rparr>,
       datafeed := \<lparr>timers = [], delivered = [], rejected = [], listeners = []\<rparr>,
       mounted := True\<rparr>"

text \<open>
  The steps of the composed system:
  \<^item> \<open>component\<close>: a step of the component and its widget, while mounted;
  \<^item> \<open>continuation\<close>: the awaited \<open>createStudy\<close> of the chart-ready callback
    resumes, mounted or not: nothing cancels it;
  \<^item> \<open>feed_call\<close>: the widget, while it exists, calls its datafeed;
  \<^item> \<open>timer_turn\<close>: the event loop runs the oldest datafeed timer;
  \<^item> \<open>teardown\<close>: React unmounts the component.
\<close>

inductive app_step :: "app \<Rightarrow> app \<Rightarrow> bool" where
  component: "mounted a \<Longrightarrow> sys_step (comp a) s \<Longrightarrow> app_step a (a\<lparr>comp := s\<rparr>)"
| continuation: "chart (comp a) \<Longrightarrow> \<not> study_sub (comp a) \<Longrightarrow>
    app_step a (a\<lparr>comp := overlayCreated (comp a)\<rparr>)"
| feed_call: "widget (comp a) \<Longrightarrow>
    app_step a (a\<lparr>datafeed := getDatafeed (asset_prop (comp a)) (price_data a) c (datafeed a)\<rparr>)"
| timer_turn: "app_step a (a\<lparr>datafeed := run_timer (datafeed a)\<rparr>)"
| teardown: "mounted a \<Longrightarrow> app_step a (app_unmount a)"

inductive app_reachable :: "app \<Rightarrow> bool" where
  start: "app_reachable (init_app st asset locale url pd)"
| step: "app_reachable a \<Longrightarrow> app_step a b \<Longrightarrow> app_reachable b"

section \<open>Runs\<close>

text \<open>
  The component mounts, its chart becomes ready, the overlay is created and
  the widget asks its datafeed for the configuration.
\<close>

definition app_ready :: app where
  "app_ready =
     \<lparr>comp = run_ready, datafeed = onReady \<lparr>timers = [], delivered = [], rejected = [], listeners = []\<rparr>,
      mounted = True, app_errors = [], price_data = [1, 2, 3]\<rparr>"

section \<open>Lemmas\<close>

lemma reachable_cleanup: "reachable s \<Longrightarrow> unmount s = Inl (TypeError ''tvWidget.remove'')"
  using reachable_sentiment_inv [of s] by (simp add: sentiment_inv_def unmount_def)

lemma app_reachable_comp: "app_reachable a \<Longrightarrow> reachable (comp a)"
proof (induction rule: app_reachable.induct)
  case (start st a0 loc url pd)
  then show ?case by (simp add: init_app_def reachable.start)
next
  case (step a b)
  from step.hyps(2) step.IH show ?case
  proof cases
    case (component s)
    with step.IH show ?thesis by (auto intro: reachable.step)
  next
    case continuation
    with step.IH show ?thesis by (auto intro: reachable.step sys_step.created)
  next
    case teardown
    with step.IH show ?thesis by (simp add: app_unmount_def reachable_cleanup)
  qed simp_all
qed

text \<open>The event loop alone, from any state, runs every queued datafeed timer.\<close>

lemma app_drain_steps: "app_step\<^sup>*\<^sup>* a (a\<lparr>datafeed := drain (datafeed a)\<rparr>)"
proof (induction "datafeed a" arbitrary: a rule: drain.induct)
  case (1 a)
  show ?case
  proof (cases "timers (datafeed a)")
    case Nil
    then show ?thesis by (simp add: drain.simps [of "datafeed a"])
  next
    case (Cons m ms)
    let ?b = "a\<lparr>datafeed := run_timer (datafeed a)\<rparr>"
    have "app_step a ?b" by (rule app_step.timer_turn)
    moreover have "app_step\<^sup>*\<^sup>* ?b (?b\<lparr>datafeed := drain (datafeed ?b)\<rparr>)"
      using Cons by (intro "1.hyps") simp_all
    ultimately show ?thesis
      using Cons by (simp add: drain.simps [of "datafeed a"])
  qed
qed

text \<open>Every reachable state of the component is reachable while mounted, with a fresh datafeed.\<close>

lemma app_reachable_lift:
  "reachable s \<Longrightarrow>
   app_reachable \<lparr>comp = s, datafeed = \<lparr>timers = [], delivered = [], rejected = [], listeners = []\<rparr>,
                  mounted = True, app_errors = [], price_data = pd\<rparr>"
proof (induction rule: reachable.induct)
  case (start st a0 loc url)
  then show ?case using app_reachable.start [of st a0 loc url pd] by (simp add: init_app_def)
next
  case (step s t)
  let ?A = "\<lparr>comp = s, datafeed = \<lparr>timers = [], delivered = [], rejected = [], listeners = []\<rparr>,
             mounted = True, app_errors = [], price_data = pd\<rparr>"
  have "app_step ?A (?A\<lparr>comp := t\<rparr>)" by (rule app_step.component) (simp_all add: step.hyps(2))
  then have "app_step ?A \<lparr>comp = t, datafeed = \<lparr>timers = [], delivered = [], rejected = [], listeners = []\<rparr>,
      mounted = True, app_errors = [], price_data = pd\<rparr>" by simp
  with step.IH show ?case by (rule app_reachable.step)
qed

lemma app_reachable_app_ready: "app_reachable app_ready"
proof -
  let ?a = "\<lparr>comp = run_ready, datafeed = \<lparr>timers = [], delivered = [], rejected = [], listeners = []\<rparr>,
             mounted = True, app_errors = [], price_data = [1, 2, 3::nat]\<rparr>"
  have w: "widget run_ready"
    by (simp add: run_ready_def overlayCreated_def createSentimentStudy_def host_createStudy_def
      chartReady_def runBaseline_def setBaselineLevel_def run_mounted_eq init_sys_def)
  have "app_reachable ?a" by (rule app_reachable_lift [OF reachable_run_ready])
  moreover have "app_step ?a app_ready"
    using app_step.feed_call [of ?a CallOnReady] w by (simp add: app_ready_def getDatafeed_def)
  ultimately show ?thesis by (rule app_reachable.step)
qed

lemma app_unmount_reachable:
  "app_reachable a \<Longrightarrow>
   app_unmount a = a\<lparr>mounted := False, app_errors := app_errors a @ [TypeError ''tvWidget.remove'']\<rparr>"
  using reachable_cleanup [OF app_reachable_comp] by (simp add: app_unmount_def)

lemma widget_app_ready: "widget (comp app_ready) \<and> asset_prop (comp app_ready) = Some demo_asset \<and>
    sentimentId (comp app_ready) = HId 0"
  by (simp add: app_ready_def run_ready_def overlayCreated_def createSentimentStudy_def host_createStudy_def
    chartReady_def runBaseline_def setBaselineLevel_def run_mounted_eq init_sys_def host_init_def)

section \<open>Properties\<close>



text \<open>
  C31: the handle outlives the component. A component mounted after the
  previous one was torn down starts with the previous \<open>sentimentId\<close>. When
  that handle is truthy, the recomputation run by its \<open>[chart]\<close> effect at
  chart ready asks the new widget for a study it never had, and is rejected,
  instead of returning at the \<open>!sentimentId\<close> guard.
\<close>

theorem stale_handle_after_remount:
  assumes "app_reachable a" and "\<not> mounted a" and "truthy (sentimentId (comp a))"
    and "asset_prop (comp a) \<noteq> None"
  shows "sentimentId (comp (remount a)) = sentimentId (comp a) \<and>
         rejections (chartReady (mountWidget (comp (remount a)))) = [WidgetError ''getStudyById'']"
proof -
  obtain ast where ast: "asset_prop (comp a) = Some ast" using assms(4) by blast
  have none: "host_getStudyById i host_init = None" for i
    by (simp add: host_getStudyById_def host_init_def)
  show ?thesis
    using assms(3) ast none
    by (cases "sentimentId (comp a)")
      (simp_all add: remount_def mountWidget_def getWidgetOptions_def init_sys_def chartReady_def
        runBaseline_def setBaselineLevel_def)
qed

theorem stale_handle_after_remount_witness:
  "app_reachable (app_unmount app_ready) \<and> \<not> mounted (app_unmount app_ready) \<and>
   sentimentId (comp (app_unmount app_ready)) = HId 0 \<and>
   rejections (chartReady (mountWidget (comp (remount (app_unmount app_ready))))) =
     [WidgetError ''getStudyById'']"
proof -
  have m: "mounted app_ready" by (simp add: app_ready_def)
  have r: "app_reachable (app_unmount app_ready)"
    by (rule app_reachable.step [OF app_reachable_app_ready app_step.teardown [OF m]])
  have u: "app_unmount app_ready = app_ready\<lparr>mounted := False,
      app_errors := app_errors app_ready @ [TypeError ''tvWidget.remove'']\<rparr>"
    by (rule app_unmount_reachable [OF app_reachable_app_ready])
  have h: "\<not> mounted (app_unmount app_ready)" "truthy (sentimentId (comp (app_unmount app_ready)))"
    "asset_prop (comp (app_unmount app_ready)) \<noteq> None"
    using u widget_app_ready by simp_all
  show ?thesis using stale_handle_after_remount [OF r h] r h u widget_app_ready by simp
qed

end
