(* ===== verification/Overlay_Spec.thy ===== *)
theory Overlay_Spec
  imports Sentiment_Properties
begin

text \<open>
  The overlay handle's lifecycle as the specification describes it (section 3:
  created once, cleared when the widget reports the removal; section 4.3: at
  most one overlay), as an abstract transition system. An abstract state is
  the tracked overlay, if any, and the set of overlays on the chart. The
  theorem is a refinement: away from the Promise the \<open>study\<close> handler stores,
  every step of the component is a step of the specification.
\<close>

section \<open>The abstract specification\<close>

type_synonym overlay_state = "study_id option \<times> study_id set"

text \<open>
  The specification's steps: no overlay stays none, the tracked overlay stays,
  an overlay is created when there is none, and the tracked overlay is
  cleared. Every state it reaches has no overlay but the tracked one, and the
  handle never moves from one overlay to another.
\<close>

inductive overlay_spec_step :: "overlay_state \<Rightarrow> overlay_state \<Rightarrow> bool" where
  stay_none: "overlay_spec_step (None, {}) (None, {})"
| stay: "overlay_spec_step (Some i, {i}) (Some i, {i})"
| create: "overlay_spec_step (None, {}) (Some i, {i})"
| clear: "overlay_spec_step (Some i, {i}) (None, {})"

fun is_promise :: "handle \<Rightarrow> bool" where
  "is_promise (HPromise i) = True"
| "is_promise h = False"

text \<open>The abstraction: the study id \<open>sentimentId\<close> tracks, and the overlays on the chart.\<close>

definition overlay_abs :: "sys \<Rightarrow> overlay_state" where
  "overlay_abs s = ((case sentimentId s of HId i \<Rightarrow> Some i | _ \<Rightarrow> None), set (overlays s))"

section \<open>Lemmas\<close>

lemma overlay_abs_shape:
  assumes "reachable s" and "\<not> is_promise (sentimentId s)"
  shows "overlay_abs s = (None, {}) \<or> (\<exists>i. sentimentId s = HId i \<and> overlay_abs s = (Some i, {i}))"
  using reachable_sentiment_inv [OF assms(1)] assms(2)
  by (cases "sentimentId s") (simp_all add: sentiment_inv_def overlay_abs_def)

text \<open>From a tracked study id, a step keeps the handle or clears it: it never retargets it.\<close>

lemma handle_id_step:
  assumes r: "reachable s" and st: "sys_step s t" and h: "sentimentId s = HId i"
  shows "sentimentId t = HId i \<or> sentimentId t = HUndefined"
  using st
proof cases
  case mount
  then show ?thesis using h by (simp add: mountWidget_def split: sum.split)
next
  case ready
  then show ?thesis using h by (simp add: chartReady_def runBaseline_sentimentId)
next
  case created
  with reachable_sentiment_inv [OF r] h show ?thesis by (simp add: sentiment_inv_def)
next
  case (event e)
  then show ?thesis using h by (simp add: dispatch_sentimentId)
next
  case (remove j)
  then show ?thesis using h by (simp add: frame_simps)
next
  case (add n)
  with userAddStudy_truthy [OF reachable_sentiment_inv [OF r]] h show ?thesis by simp
qed (use h in simp)

section \<open>Refinement\<close>

text \<open>
  C32: as long as the handle is not the Promise of the \<open>study\<close> handler,
  every step of the component, its widget and its user refines a step of the
  specification's overlay lifecycle, under the abstraction
  \<^const>\<open>overlay_abs\<close>. The one way out is the Promise (C7, C8).
\<close>

theorem overlay_lifecycle_refinement:
  assumes r: "reachable s" and st: "sys_step s t" and np: "\<not> is_promise (sentimentId t)"
  shows "overlay_spec_step (overlay_abs s) (overlay_abs t)"
proof -
  have rt: "reachable t" using r st by (rule reachable.step)
  have nps: "\<not> is_promise (sentimentId s)"
  proof
    assume "is_promise (sentimentId s)"
    then obtain j where "sentimentId s = HPromise j" by (cases "sentimentId s") simp_all
    with promise_step [OF r st] np show False by simp
  qed
  from overlay_abs_shape [OF r nps] show ?thesis
  proof (elim disjE exE conjE)
    assume s0: "overlay_abs s = (None, {})"
    from overlay_abs_shape [OF rt np] show ?thesis
      by (auto simp: s0 intro: overlay_spec_step.intros)
  next
    fix i assume h: "sentimentId s = HId i" and s1: "overlay_abs s = (Some i, {i})"
    from handle_id_step [OF r st h] overlay_abs_shape [OF rt np] show ?thesis
      by (auto simp: s1 intro: overlay_spec_step.intros)
  qed
qed

theorem overlay_lifecycle_refinement_witness:
  "reachable run_ready \<and> sys_step run_ready (removeEntity 0 run_ready) \<and>
   \<not> is_promise (sentimentId (removeEntity 0 run_ready)) \<and>
   overlay_abs run_ready = (Some 0, {0}) \<and> overlay_abs (removeEntity 0 run_ready) = (None, {})"
proof -
  note defs = run_ready_def overlayCreated_def createSentimentStudy_def chartReady_def
    run_mounted_eq runBaseline_def setBaselineLevel_def init_sys_def host_createStudy_def
    host_init_def removeEntity_def dispatch_def handlers_def host_removeEntity_def study_ids_def
  have st: "sys_step run_ready (removeEntity 0 run_ready)"
    by (rule sys_step.remove) (simp_all add: defs)
  have np: "\<not> is_promise (sentimentId (removeEntity 0 run_ready))"
    by (simp add: defs)
  have a: "overlay_abs run_ready = (Some 0, {0})" "overlay_abs (removeEntity 0 run_ready) = (None, {})"
    by (simp_all add: overlay_abs_def defs named_ids_def sentimentName_def)
  show ?thesis
    using overlay_lifecycle_refinement [OF reachable_run_ready st np] reachable_run_ready st np a
    by simp
qed

end
