(* ===== verification/Basic.thy ===== *)
theory Basic
  imports Config
begin

text \<open>
  The React component of src/tv-code.js, the variant without the sentiment
  overlay. It has the same mount effect, chart-ready callback, subscription
  effect and style effect as the sentiment variant. Its handlers are a single
  empty \<open>mouse_down\<close> listener. Its chart-ready callback still creates the
  overlay study, and it reads \<open>sentimentName\<close> and assigns \<open>sentimentId\<close>.
  Neither name is declared in this module, which is strict code.
\<close>

section \<open>State and steps\<close>

text \<open>
  \<open>tvWidget\<close> and \<open>chart\<close> are the two \<open>useState\<close> values (lines 78--79), as
  flags. \<open>listeners\<close> counts the empty \<open>mouse_down\<close> listeners registered
  with the widget. \<open>rejections\<close> logs the errors that end the asynchronous
  chart-ready callback. \<open>cleanup_tvWidget\<close> is the \<open>tvWidget\<close> value the
  mount effect's cleanup closure captured. \<open>props\<close> and \<open>style\<close> are the
  theme and the styles applied through the widget's API, as in the sentiment
  variant. \<open>b_asset\<close>, \<open>b_locale\<close> and \<open>b_blobCdnUrl\<close> are the other
  inputs of \<open>getWidgetOptions\<close>, and \<open>b_mount_error\<close> the error the mount
  effect threw, if any.
\<close>

record basic_sys =
  b_widget :: bool
  b_chart :: bool
  b_listeners :: nat
  b_rejections :: "js_error list"
  b_cleanup_tvWidget :: bool
  b_props :: settings
  b_style :: widget_style
  b_asset :: "asset option"
  b_locale :: string
  b_blobCdnUrl :: string
  b_mount_error :: "js_error option"

definition init_basic :: "settings \<Rightarrow> asset option \<Rightarrow> string \<Rightarrow> string \<Rightarrow> basic_sys" where
  "init_basic st asset locale url =
     \<lparr>b_widget = False, b_chart = False, b_listeners = 0, b_rejections = [],
      b_cleanup_tvWidget = False, b_props = st,
      b_style = \<lparr>chart_overrides = [], css_props = []\<rparr>,
      b_asset = asset, b_locale = locale, b_blobCdnUrl = url, b_mount_error = None\<rparr>"

text \<open>
  The effect hooks that run after a render, in their source order. The
  \<open>[chart, tvWidget]\<close> effect (lines 203--209) subscribes one more listener when
  \<open>tvWidget\<close> is set. The \<open>[chart]\<close> effect (lines 212--217) calls
  \<open>changeStyles()\<close> when \<open>chart\<close> is set. Each runs only when one of its
  dependencies changed since the previous render.
\<close>

definition subscribeEffect_basic :: "basic_sys \<Rightarrow> basic_sys" where
  "subscribeEffect_basic s = (if b_widget s then s\<lparr>b_listeners := Suc (b_listeners s)\<rparr> else s)"

definition styleEffect_basic :: "basic_sys \<Rightarrow> basic_sys" where
  "styleEffect_basic s =
     (if b_chart s then s\<lparr>b_style := changeStyles (b_widget s) (b_props s) (b_style s)\<rparr> else s)"

text \<open>
  The mount effect (lines 183--201) builds the options, creates the widget and
  calls \<open>setTVWidget\<close>. When building the options throws, the effect ends
  there. Its cleanup captures \<open>tvWidget\<close> as the first render saw it. The
  re-render changes \<open>tvWidget\<close>, so the subscription effect runs.
\<close>

definition mountWidget_basic :: "basic_sys \<Rightarrow> basic_sys" where
  "mountWidget_basic s =
     (case getWidgetOptions (b_asset s) (b_props s) (b_locale s) (b_blobCdnUrl s) of
        Inl e \<Rightarrow> s\<lparr>b_mount_error := Some e\<rparr>
      | Inr options \<Rightarrow>
          subscribeEffect_basic (s\<lparr>b_widget := True, b_cleanup_tvWidget := b_widget s\<rparr>))"

text \<open>
  The chart-ready callback (lines 188--196): \<open>setChartType(1)\<close>, then
  \<open>setChart(activeChart)\<close>. Then the arguments of \<open>createStudy\<close> are
  evaluated, and \<open>{ symbol: sentimentName }\<close> throws a ReferenceError before
  \<open>createStudy\<close> is called. (Were \<open>sentimentName\<close> a global, the study would
  be created and the assignment to the undeclared \<open>sentimentId\<close> would throw
  the ReferenceError instead.) The callback's Promise rejects and nobody
  handles it. The re-render changes \<open>chart\<close>, so both effects run.
  \<open>setChartType(1)\<close> sets the style the options' \<open>mainSeriesProperties.style\<close>
  already selects, so it is not recorded.
\<close>

definition chartReady_basic :: "basic_sys \<Rightarrow> basic_sys" where
  "chartReady_basic s =
     styleEffect_basic (subscribeEffect_basic
       (s\<lparr>b_chart := True, b_rejections := b_rejections s @ [ReferenceError ''sentimentName'']\<rparr>))"

text \<open>The cleanup on unmount (lines 198--201): \<open>tvWidget.remove()\<close>.\<close>

definition unmount_basic :: "basic_sys \<Rightarrow> js_error + basic_sys" where
  "unmount_basic s =
     (if b_cleanup_tvWidget s then Inr (s\<lparr>b_widget := False\<rparr>)
      else Inl (TypeError ''tvWidget.remove''))"

text \<open>
  The component's life: the mount, then the chart-ready callback. A
  \<open>mouse_down\<close> event runs the empty listeners and changes nothing.
\<close>

inductive basic_step :: "basic_sys \<Rightarrow> basic_sys \<Rightarrow> bool" where
  mount: "\<not> b_widget s \<Longrightarrow> b_mount_error s = None \<Longrightarrow> basic_step s (mountWidget_basic s)"
| ready: "b_widget s \<Longrightarrow> \<not> b_chart s \<Longrightarrow> basic_step s (chartReady_basic s)"

inductive basic_reachable :: "basic_sys \<Rightarrow> bool" where
  start: "basic_reachable (init_basic st asset locale url)"
| step: "basic_reachable s \<Longrightarrow> basic_step s t \<Longrightarrow> basic_reachable t"

inductive_cases basic_stepE: "basic_step s t"

section \<open>Invariant\<close>

text \<open>
  The shape of every reachable state, fixed by whether the widget and the
  chart exist.
\<close>

definition basic_inv :: "basic_sys \<Rightarrow> bool" where
  "basic_inv s \<longleftrightarrow>
     (b_chart s \<longrightarrow> b_widget s) \<and> \<not> b_cleanup_tvWidget s \<and>
     b_listeners s = (if b_widget s then 1 else 0) + (if b_chart s then 1 else 0) \<and>
     b_rejections s = (if b_chart s then [ReferenceError ''sentimentName''] else []) \<and>
     b_style s = (if b_chart s then changeStyles True (b_props s) \<lparr>chart_overrides = [], css_props = []\<rparr>
                  else \<lparr>chart_overrides = [], css_props = []\<rparr>)"

text \<open>The mount and the chart-ready callback, with a theme.\<close>

definition run_basic :: basic_sys where
  "run_basic = chartReady_basic (mountWidget_basic (init_basic
     \<lparr>primaryBackgroundColor1 = ''#101010'', primaryBackgroundColor2 = ''#202020'',
      fontColor = ''#e0e0e0'', buyColor = ''#00a000'', sellColor = ''#a00000'',
      accentColor = ''#ffa000''\<rparr>
     (Some \<lparr>AssetClassId = Coins, AssetTicker = ''BTC'', AssetName = ''Bitcoin'',
            Decimals = 2, Category = ''crypto''\<rparr>) ''en-GB'' ''https://cdn.example''))"

lemma basic_inv_init: "basic_inv (init_basic st asset locale url)"
  by (simp add: basic_inv_def init_basic_def)

lemma basic_inv_mount: "basic_inv s \<Longrightarrow> \<not> b_widget s \<Longrightarrow> basic_inv (mountWidget_basic s)"
  by (simp add: basic_inv_def mountWidget_basic_def subscribeEffect_basic_def split: sum.split)

lemma basic_inv_ready:
  "basic_inv s \<Longrightarrow> b_widget s \<Longrightarrow> \<not> b_chart s \<Longrightarrow> basic_inv (chartReady_basic s)"
  by (simp add: basic_inv_def chartReady_basic_def subscribeEffect_basic_def styleEffect_basic_def)

lemma basic_step_inv: "basic_step s t \<Longrightarrow> basic_inv s \<Longrightarrow> basic_inv t"
  by (induction rule: basic_step.induct) (simp_all add: basic_inv_mount basic_inv_ready)

lemma basic_reachable_inv: "basic_reachable s \<Longrightarrow> basic_inv s"
  by (induction rule: basic_reachable.induct) (simp_all add: basic_inv_init basic_step_inv)

lemma unmount_basic_throws: "basic_reachable s \<Longrightarrow> unmount_basic s = Inl (TypeError ''tvWidget.remove'')"
  using basic_reachable_inv by (simp add: unmount_basic_def basic_inv_def)

section \<open>Properties\<close>

lemma basic_reachable_run_basic: "basic_reachable run_basic"
proof -
  let ?s0 = "init_basic
     \<lparr>primaryBackgroundColor1 = ''#101010'', primaryBackgroundColor2 = ''#202020'',
      fontColor = ''#e0e0e0'', buyColor = ''#00a000'', sellColor = ''#a00000'',
      accentColor = ''#ffa000''\<rparr>
     (Some \<lparr>AssetClassId = Coins, AssetTicker = ''BTC'', AssetName = ''Bitcoin'',
            Decimals = 2, Category = ''crypto''\<rparr>) ''en-GB'' ''https://cdn.example''"
  have "basic_reachable (mountWidget_basic ?s0)"
    by (rule basic_reachable.step [OF basic_reachable.start], rule basic_step.mount)
      (simp_all add: init_basic_def)
  then show ?thesis unfolding run_basic_def
    by (rule basic_reachable.step, intro basic_step.ready)
      (simp_all add: mountWidget_basic_def subscribeEffect_basic_def init_basic_def getWidgetOptions_def)
qed



end
