(* ===== verification/Spec2Isabelle.thy ===== *)
theory Spec2Isabelle
  imports App Overlay_Spec Basic
begin

text \<open>
  \<^bold>\<open>A verification library for tv-chart-base.\<close>

  The repository is a React component that embeds a third-party charting
  widget. It comes in two variants: src/tv-code.js, the plain chart, and
  src/Sentiment/Sentiment.js, the same chart with a sentiment overlay.
  The component builds the widget's options and a datafeed object. The widget
  calls the datafeed back to resolve symbols and load bars. The component
  subscribes to widget events, applies the theme when the chart becomes
  ready, and (in the sentiment variant) recomputes, on every event, where the
  overlay's zero line sits.

  \<^bold>\<open>Theories.\<close>
  \<^item> \<open>Prelude\<close>: the JavaScript values the code computes with. These are
    numbers with NaN and the infinities (\<^typ>\<open>js_number\<close>), with the
    overflow of a double to \<open>Infinity\<close> (\<^const>\<open>js_of_real\<close>,
    \<^const>\<open>js_pow\<close>), thrown errors
    (\<^typ>\<open>js_error\<close>) and object literals as association lists
    (\<^const>\<open>js_get\<close>, \<^const>\<open>js_set\<close>, \<^const>\<open>js_spread\<close>: a later key
    wins). The theory also holds the generic lemmas the components share.
  \<^item> \<open>Config\<close> (tv-code.js lines 7--69, 82--107, 158--180): the asset-class
    and locale tables, \<open>tvChartLocales[locale] || 'en'\<close> with the members
    every object inherits, \<open>getCommonOverrides\<close>, \<open>changeStyles\<close> (with its
    \<open>!tvWidget\<close> guard) as a change of the widget's style state
    \<^typ>\<open>widget_style\<close>, and \<open>getWidgetOptions\<close>. The default
    \<open>asset = null\<close> is an error value.
  \<^item> \<open>Baseline\<close> (Sentiment.js lines 210--217): the percentage computed from
    the visible range, as a \<^typ>\<open>js_number\<close>. \<^const>\<open>zero_position\<close> is
    the abstract specification it refines.
  \<^item> \<open>Host\<close>: the widget's state as far as the component touches it. That is
    the studies with their names and overrides, fresh ids, and the left
    scale's visible range. It also holds the API calls the component makes
    (\<open>createStudy\<close>, \<open>removeEntity\<close>, \<open>getAllStudies\<close>, \<open>getStudyById\<close>,
    \<open>applyOverrides\<close>). This is the environment of the handlers; it models
    no code of the repository.
  \<^item> \<open>Sentiment\<close> (Sentiment.js lines 71--81, 201--301): the module-level
    handle \<open>sentimentId\<close> as a \<^typ>\<open>handle\<close>: null, undefined, a study id,
    or the Promise of an un-awaited \<open>createStudy\<close>. It also models
    \<open>setBaselineLevel\<close> with its guards and error paths, and the six widget
    event handlers. The \<open>[chart, tvWidget]\<close> effect registers these again on
    every re-run, so \<open>subs\<close> lists one closure per registration with the
    \<open>chart\<close> it captured. Also modelled: the \<open>study\<close> handler, the mount
    step (which builds the options with \<open>getWidgetOptions\<close> and stops when that
    throws), the chart-ready step with the \<open>[chart]\<close> effect (\<open>changeStyles\<close>,
    then \<open>setBaselineLevel\<close>), and the teardown closure. The whole system is
    the inductive relation \<^const>\<open>sys_step\<close>. Its steps are the component's
    lifecycle steps, widget events, the user adding or removing studies, and
    scale changes. Its reachable states are \<^const>\<open>reachable\<close>.
  \<^item> \<open>Sentiment_Invariant\<close>: frame lemmas of every handler, and the invariant
    \<^const>\<open>sentiment_inv\<close>, proved preserved by every step. It says the
    handle agrees with the overlay studies: no overlay while the handle is
    falsy, exactly the tracked one while it is an id, at most the promised
    one while it is a Promise. \<^const>\<open>ui_of\<close> is the React state and theme,
    which only the mount and chart-ready steps change.
  \<^item> \<open>Sentiment_Properties\<close>: the theorems on reachable states, and concrete
    runs (\<^const>\<open>run_ready\<close>, \<^const>\<open>run_scaled\<close>, \<^const>\<open>run_lost\<close>)
    that witness them.
  \<^item> \<open>Datafeed\<close> (Sentiment.js lines 112--173, tv-code.js lines 124--146):
    \<open>onReady\<close>, \<open>resolveSymbol\<close> in both variants, \<open>getBars\<close>,
    \<open>subscribeBars\<close> and \<open>unsubscribeBars\<close>. The \<open>setTimeout\<close> queue is
    explicit: a deferred callback is queued in \<open>timers\<close>. The event loop
    (\<^const>\<open>run_timer\<close>) delivers the oldest timer to \<open>delivered\<close>, the
    record of callbacks the widget received.
  \<^item> \<open>Datafeed_Session\<close> (Sentiment.js lines 121--173, tv-code.js lines
    108--155): the datafeed object as an interface. It has five calls
    (\<^typ>\<open>feed_call\<close>) and two implementations, \<^const>\<open>getDatafeed\<close> and
    \<^const>\<open>getDatafeed_basic\<close>. Sessions (\<^const>\<open>run_session\<close>) are lists
    of widget calls, event-loop turns and upstream ticks, run against either
    implementation. The event loop run to the end is \<^const>\<open>drain\<close>, a
    \<open>function\<close> whose termination is proved by the length of the timer queue.
  \<^item> \<open>App\<close>: the composition of the sentiment component, the datafeed its
    widget was built with, and React's lifecycle (\<^const>\<open>app_step\<close>). React
    may tear the component down (\<^const>\<open>app_unmount\<close> runs the cleanup).
    The widget, never removed, keeps calling its datafeed. The event loop
    keeps running its timers, and an awaited \<open>createStudy\<close> still resumes.
    \<^const>\<open>remount\<close> starts a new instance that shares the module-level
    \<open>sentimentId\<close>.
  \<^item> \<open>Overlay_Spec\<close>: the specification's overlay lifecycle (sections 3 and
    4.3) as an abstract transition system \<^const>\<open>overlay_spec_step\<close> over
    the tracked id and the set of overlays. \<^const>\<open>overlay_abs\<close> is the
    abstraction.
  \<^item> \<open>Basic\<close> (tv-code.js lines 78--79, 183--217): the lifecycle of the basic
    variant as the relation \<^const>\<open>basic_step\<close>: mount, then the chart-ready
    callback, which throws a ReferenceError because it still uses the
    sentiment variant's \<open>sentimentName\<close> and \<open>sentimentId\<close>.
  \<^item> This theory: the properties that span the configuration and the
    component (the theme in force once the chart is ready).

  \<^bold>\<open>What the theorems show.\<close>
  \<^item> The baseline computation refines the clamped position of price zero on
    every proper range. It stays within 0--100 except on the range
    \<open>[0, 0]\<close>, where it is NaN, unguarded (C1--C3).
  \<^item> The system keeps at most one overlay (C4). While the handle is an id,
    every recomputation applies the computed level to the tracked overlay
    (C5). A \<open>remove\<close> event clears the handle and makes later events no-ops
    (C6). The \<open>study\<close> handler removes every user-added Gradient Sentiment
    study (C10).
  \<^item> The \<open>study\<close> handler stores an un-awaited Promise. From then on the handle
    never changes (C7). Once that overlay is removed, none ever reappears and
    every recomputation is rejected (C8). A six-step run reaches that state
    (C9). Away from the Promise, every step refines the specification's
    lifecycle (C32).
  \<^item> The datafeed: \<open>onReady\<close> and \<open>resolveSymbol\<close> answer once, after the
    earlier timers, never synchronously (C11, C12). \<open>getBars\<close> answers
    synchronously, first with the bars and then with \<open>noData\<close> (C13).
    \<open>unsubscribeBars\<close> does nothing (C14). The two \<open>resolveSymbol\<close> variants
    agree off the sentiment series (C15).
  \<^item> The lifecycle: once the chart is ready, the handlers are registered
    twice, the first group dead (C16), and the theme is in force (C17).
    Unmounting never releases the widget: the cleanup closure captured a null
    \<open>tvWidget\<close> (C18). The basic variant's chart-ready callback always
    rejects (C19). With the default null asset the component never gets a
    widget at all (C29). Teardown leaves the widget running, and every
    datafeed callback queued before it is still delivered (C30). A component
    mounted again inherits the old handle, and its first recomputation is
    rejected (C31).
  \<^item> \<open>changeStyles\<close> is a key-wise merge and idempotent (C20). The locale
    lookup is characterised exactly (C21). Bar colours for up and down are
    identical (C22). The widget options are correct, and fail on a null
    asset (C23).
  \<^item> Whole datafeed sessions: once the event loop drains, every call has been
    answered exactly once (C24), and the deferred answers come in call order
    (C25). The two variants are equivalent on every session that does not
    resolve the sentiment series (C26). Resolving a descriptor's ticker gives
    the descriptor back, except for an asset named like the sentiment series
    (C27). A descriptor has every required field defined exactly when its
    asset class is listed and its price scale does not overflow (C28). The
    price scale \<open>10 ** decimals\<close> is finite up to 308 decimals and
    \<open>Infinity\<close> beyond (C33).

  \<^bold>\<open>Bounds and fuel.\<close> Every loop of the code runs over a finite list: the
  handler registrations, the snapshot of \<open>getAllStudies()\<close>, and the CSS
  calls. They are folds, total by construction. The only iteration with a
  count is the event loop \<^const>\<open>run_timers\<close>. Running it
  \<open>length (timers f) + 1\<close> times is enough for a timer queued now, because
  a task delivers one callback and queues nothing (C11, C12). The loop run
  to the end, \<^const>\<open>drain\<close>, terminates for the same reason: each turn
  shortens the queue (C24).

  \<^bold>\<open>Not modelled.\<close>
  \<^item> The widget's rendering, the JSX markup and PropTypes. The markup only
    attaches the container ref, and PropTypes only warn in development.
  \<^item> A second translation of the code Sentiment.js repeats from tv-code.js
    (the tables, \<open>getCommonOverrides\<close>, \<open>changeStyles\<close>,
    \<open>getWidgetOptions\<close>, lines 7--69, 83--109 and 176--198). The text is
    the same, so both components use the one definition of \<open>Config\<close>,
    whose map entries name the tv-code.js lines.
  \<^item> IEEE rounding: prices are reals. Overflow to \<open>Infinity\<close> is modelled
    where the code can reach it from its inputs (\<open>10 ** decimals\<close>). It is
    not modelled in the baseline arithmetic, whose operands are visible
    prices, many orders of magnitude below \<open>2 ^ 1024\<close>.
  \<^item> The interleaving of \<open>setBaselineLevel\<close>'s awaits with other events. Each
    call is one step of the system. Every value it awaits is returned
    synchronously by the widget's API, so its continuations run as
    microtasks. They finish before the next widget event, which is a
    separate task. Only other microtasks could interleave with them, and
    none of those changes the handle or the overlay. For the same reason the
    \<open>study\<close> handler, whose removal loop runs in a \<open>.then\<close> continuation,
    is one step.
  \<^item> \<open>setChartType(1)\<close>: the options' \<open>mainSeriesProperties.style\<close> already
    selects style 1.
  \<^item> The chart-ready callback of a widget whose component was already torn
    down: its \<open>setChart\<close> no longer re-renders. After a remount, the old
    widget is not followed further. Its late \<open>createStudy\<close> would still write
    the shared \<open>sentimentId\<close>. What that id then means to the new widget
    depends on how the library names studies across widget instances, which
    the repository does not show.
  \<^item> Upstream data sources (\<open>priceData\<close>, \<open>yourSubscriptionMethod\<close>). These
    are parameters, as are the undeclared globals \<open>drawSentiment\<close>,
    \<open>assetClasses\<close> and \<open>BLOB_CDN_URL\<close>.
  \<^item> The model assumes the user cannot add an \<open>Overlay\<close> study: the compare
    dialog, the UI path that creates one, is among the disabled features
    (C23).
\<close>

section \<open>Properties across components\<close>

subsection \<open>The theme on the chart\<close>

text \<open>Only the chart-ready step changes the theme, and it applies \<open>changeStyles\<close>.\<close>

lemma reachable_style:
  "reachable s \<Longrightarrow>
   style s = (if chart s then changeStyles True (props s) \<lparr>chart_overrides = [], css_props = []\<rparr>
              else \<lparr>chart_overrides = [], css_props = []\<rparr>)"
proof (induction rule: reachable.induct)
  case (start st)
  then show ?case by (simp add: init_sys_def)
next
  case (step s t)
  from sys_step_ui [OF step.hyps(2)] show ?case
  proof (elim disjE conjE)
    assume "ui_of t = ui_of s"
    with step.IH show ?thesis by (simp add: ui_of_def)
  next
    assume "\<not> widget s" "t = mountWidget s"
    with step.IH show ?thesis by (simp add: mountWidget_def split: sum.split)
  next
    assume "widget s" "\<not> chart s" "t = chartReady s"
    with step.IH chartReady_ui [of s] show ?thesis by (simp add: ui_of_def)
  qed
qed



end
